theory Spec2Isabelle
  imports Complex_Main
begin

section \<open>Job launcher: the job life cycle of \<open>JobService\<close>\<close>

text \<open>
  A shallow embedding of \<open>job.service.ts\<close> (\<open>createJob\<close>, \<open>launchJob\<close>,
  \<open>saveManifest\<close>, \<open>validateManifest\<close>, \<open>getManifest\<close>, \<open>sendWebhook\<close>,
  \<open>getResult\<close>) and of \<open>rewards.ts\<close> (\<open>filterAddressesToReward\<close>).

  The service is asynchronous glue over collaborators: the database repositories, the
  object store, the exchange-rate source, the escrow client, the token contract and an
  HTTP client. Each call of a service method runs its awaits one after the other, so a
  method is a function from the state before the call to a result and the state after
  it. A thrown exception is the \<open>Inl\<close> of the result; the state is returned next to
  it, because what was written before the throw stays written.

  What a collaborator answers is a field of the record \<open>env\<close>; a collaborator is
  modelled by the value it returns. A collaborator that rejects is a branch of the
  model where the source catches it (the creation of the payment record) and at the
  token transfer of \<open>launchJob\<close>, which stands between the escrow and the save of the
  launched job. The conversions of the \<open>ethers\<close> library that run inside the service
  (\<open>BigNumber.from\<close> on a number) are modelled with the errors they throw.
\<close>

subsection \<open>Enumerations (\<open>common/enums/job.ts\<close>)\<close>

datatype JobStatus = PENDING | PAID | LAUNCHED | FAILED | TO_CANCEL | CANCELED

datatype JobRequestType = IMAGE_POINTS | IMAGE_BOXES | FORTUNE

text \<open>The members of the enumeration are strings at run time.\<close>

fun JobRequestType_value :: "JobRequestType \<Rightarrow> string" where
  "JobRequestType_value IMAGE_POINTS = ''IMAGE_POINTS''"
| "JobRequestType_value IMAGE_BOXES = ''IMAGE_BOXES''"
| "JobRequestType_value FORTUNE = ''FORTUNE''"

text \<open>
  The members of \<open>common/enums/payment.ts\<close> that \<open>job.service.ts\<close> names.
\<close>

datatype Currency = USD
datatype TokenId = HMT
datatype PaymentSource = BALANCE
datatype PaymentType = WITHDRAWAL
datatype PaymentStatus = SUCCEEDED

subsection \<open>Exceptions\<close>

text \<open>
  The messages are the members of \<open>ErrorJob\<close>, \<open>ErrorBucket\<close>, \<open>ErrorEscrow\<close> and
  \<open>ErrorPayment\<close> that the service throws, under the names the source gives them.
  \<open>InvalidChainId\<close> is what the chain-id validation throws, \<open>DivisionByZero\<close> what
  the decimal division throws, and \<open>TypeError\<close> is JavaScript's own error for a
  property read on \<open>undefined\<close>. \<open>NumericFault_underflow\<close> and
  \<open>NumericFault_overflow\<close> are the faults of \<open>BigNumber.from\<close>, \<open>ValueOutOfBounds\<close> is
  the error of the ABI encoder for a negative \<open>uint256\<close>, and \<open>CallException\<close> is a
  contract call that rejects.
\<close>

datatype message =
    ErrorJob_NotEnoughFunds
  | ErrorJob_NotCreated
  | ErrorJob_ManifestValidationFailed
  | ErrorJob_ManifestNotFound
  | ErrorJob_WebhookWasNotSent
  | ErrorJob_NotFound
  | ErrorJob_ResultNotFound
  | ErrorJob_ResultValidationFailed
  | ErrorBucket_UnableSaveFile
  | ErrorEscrow_NotCreated
  | ErrorPayment_IncorrectAmount
  | ErrorPayment_NotSuccess

datatype exception =
    BadRequestException message
  | ConflictException message
  | NotFoundException message
  | BadGatewayException message
  | InvalidChainId
  | DivisionByZero
  | TypeError
  | NumericFault_underflow
  | NumericFault_overflow
  | ValueOutOfBounds
  | CallException

text \<open>What \<open>paymentRepository.create\<close> can throw, as the \<open>catch\<close> of \<open>createJob\<close> tells
  them apart: a \<open>QueryFailedError\<close> or any other error, each with its message.\<close>

datatype thrown = QueryFailedError string | OtherError string

subsection \<open>Decimal helpers\<close>

text \<open>
  Modelled from the spec: the helpers \<open>add\<close>, \<open>mul\<close>, \<open>div\<close> and \<open>lt\<close> of
  \<open>common/utils/decimal\<close> are not among the sources. The spec words them as exact
  decimal arithmetic (\<open>tokenAmount = usdAmount * rate\<close>,
  \<open>fee = feePercentage/100 * fundAmount\<close>, \<open>balance < fundAmount + fee\<close>), so amounts
  are rationals and the helpers are the field operations. A division by zero has no
  decimal value: \<open>div_decimal\<close> gives \<open>None\<close> there, which the caller takes as a throw.
\<close>

definition add :: "rat \<Rightarrow> rat \<Rightarrow> rat" where
  "add a b = a + b"

definition mul :: "rat \<Rightarrow> rat \<Rightarrow> rat" where
  "mul a b = a * b"

definition div_decimal :: "rat \<Rightarrow> rat \<Rightarrow> rat option" where
  "div_decimal a b = (if b = 0 then None else Some (a / b))"

definition lt :: "rat \<Rightarrow> rat \<Rightarrow> bool" where
  "lt a b = (a < b)"

subsection \<open>Documents\<close>

text \<open>
  A downloaded result document is any JSON value; \<open>truthy\<close> is JavaScript's
  truthiness of it, which \<open>!result\<close> negates (\<open>JNull\<close> also stands for
  \<open>undefined\<close>).
\<close>

datatype json =
    JNull
  | JBool bool
  | JNum rat
  | JStr string
  | JArr "json list"
  | JObj "(string \<times> json) list"

fun truthy :: "json \<Rightarrow> bool" where
  "truthy JNull = False"
| "truthy (JBool b) = b"
| "truthy (JNum n) = (n \<noteq> 0)"
| "truthy (JStr s) = (s \<noteq> [])"
| "truthy (JArr xs) = True"
| "truthy (JObj kvs) = True"

text \<open>
  The request DTOs. \<open>job.dto\<close> is not among the sources: the fields are the ones
  \<open>createJob\<close> reads, and the properties of the fortune request that the object spread
  copies into the manifest are kept as the list \<open>fortuneProperties\<close>. An absent
  \<open>chainId\<close> (\<open>undefined\<close> or \<open>null\<close>) is \<open>None\<close>.
\<close>

record JobFortuneDto =
  fortuneChainId :: "int option"
  fortuneFundAmount :: rat
  fortuneProperties :: "(string \<times> json) list"

record JobCvatDto =
  cvatChainId :: "int option"
  cvatFundAmount :: rat
  dataUrl :: string
  labels :: "string list"
  requesterDescription :: string
  minQuality :: rat
  gtUrl :: string
  jobBounty :: string

datatype job_dto = Fortune JobFortuneDto | Cvat JobCvatDto

fun dto_chainId :: "job_dto \<Rightarrow> int option" where
  "dto_chainId (Fortune d) = fortuneChainId d"
| "dto_chainId (Cvat d) = cvatChainId d"

fun dto_fundAmount :: "job_dto \<Rightarrow> rat" where
  "dto_fundAmount (Fortune d) = fortuneFundAmount d"
| "dto_fundAmount (Cvat d) = cvatFundAmount d"

text \<open>
  A manifest document. \<open>createJob\<close> builds it in one of two shapes: the fortune manifest
  is the request with \<open>requestType\<close> added and \<open>fundAmount\<close> replaced by the token
  amount; the annotation manifest has the four parts \<open>data\<close>, \<open>annotation\<close>,
  \<open>validation\<close> and \<open>job_bounty\<close>. A downloaded document is read at the type
  \<open>getManifest\<close> declares, \<open>FortuneManifestDto | CvatManifestDto\<close>, and may have any
  of the properties of the two classes, or lack them (\<open>None\<close> is \<open>undefined\<close>): the
  source reads \<open>requestType\<close> and \<open>annotation.type\<close> independently of each other.
  \<open>manifestProperties\<close> are the remaining properties of a fortune manifest. The labels
  are the names of the objects \<open>{name}\<close> the source maps them to. Whether a document
  satisfies the constraints of a class is what the validator says.
\<close>

record Annotation =
  annotation_labels :: "string list option"
  annotation_description :: string
  annotation_type :: "string option"
  job_size :: rat
  max_time :: rat

record Validation =
  min_quality :: rat
  val_size :: rat
  gt_url :: string

record manifest =
  manifestProperties :: "(string \<times> json) list"
  manifestChainId :: "int option"
  requestType :: "string option"
  manifestFundAmount :: "rat option"
  data_url :: "string option"
  annotation :: "Annotation option"
  validation :: "Validation option"
  job_bounty :: "string option"

text \<open>The classes \<open>class-validator\<close> is asked to validate an object against.\<close>

datatype manifest_class = FortuneManifestDto_class | CvatManifestDto_class

datatype result_class = FortuneFinalResultDto_class | CvatFinalResultDto_class

subsection \<open>Entities and the state\<close>

record JobEntity =
  job_id :: nat
  chainId :: int
  userId :: nat
  manifestUrl :: string
  manifestHash :: string
  fee :: rat
  fundAmount :: rat
  status :: JobStatus
  escrowAddress :: "string option"
  waitUntil :: nat

record PaymentEntity =
  payment_userId :: nat
  payment_source :: PaymentSource
  payment_type :: PaymentType
  payment_amount :: rat
  payment_currency :: TokenId
  payment_rate :: rat
  payment_status :: PaymentStatus

record EscrowConfig =
  recordingOracle :: string
  reputationOracle :: string
  recordingOracleFee :: int
  reputationOracleFee :: int
  escrowManifestUrl :: string
  escrowManifestHash :: string

record SendWebhookDto =
  webhookEscrowAddress :: "string option"
  webhookChainId :: int

text \<open>
  The writes a call makes, in program order: a file stored, a job row inserted, a
  payment row inserted, a job row saved, an escrow created on chain, tokens
  transferred (token, receiver, amount), a webhook request sent (URL, body).
\<close>

datatype effect =
    ManifestUploaded manifest
  | JobInserted JobEntity
  | PaymentCreated PaymentEntity
  | JobSaved JobEntity
  | EscrowCreated string EscrowConfig string
  | TokensTransferred string string int
  | WebhookPosted string SendWebhookDto

text \<open>
  The state a call runs in: the job table, the payment table, how often the routing
  selector was asked, and the writes made so far.
\<close>

record world =
  jobs :: "JobEntity list"
  payments :: "PaymentEntity list"
  routingCalls :: nat
  effects :: "effect list"

subsection \<open>Configuration and collaborators\<close>

text \<open>
  The configuration values the service reads (\<open>ConfigNames\<close>), the constant
  \<open>ErrorPostgres.NumericFieldOverflow\<close> and the table \<open>NETWORKS\<close> of the SDK (its
  \<open>hmtAddress\<close> column), which are not among the sources, and what each collaborator
  answers:
  \<^item> \<open>supportedChainIds\<close>: the chain ids \<open>web3Service.validateChainId\<close> accepts;
  \<^item> \<open>getUserBalance\<close>: \<open>paymentService.getUserBalance\<close>, an aggregate of the payment
    table;
  \<^item> \<open>getRate\<close>: the exchange rate fetched by \<open>getRate(Currency.USD, TokenId.HMT)\<close>;
  \<^item> \<open>uploadFiles\<close>: the first uploaded file (URL, hash) of
    \<open>storageClient.uploadFiles\<close>, \<open>None\<close> when there is none;
  \<^item> \<open>selectNetwork\<close>: \<open>routingProtocolService.selectNetwork\<close>, by the number of earlier
    calls;
  \<^item> \<open>jobRepositoryCreates\<close>: whether \<open>jobRepository.create\<close> returns an entity;
  \<^item> \<open>paymentRepositoryCreate\<close>: what \<open>paymentRepository.create\<close> throws, \<open>None\<close> when it
    succeeds;
  \<^item> \<open>createAndSetupEscrow\<close>: the address the escrow client returns, empty when none;
  \<^item> \<open>tokenTransfer\<close>: whether the \<open>transfer\<close> call of the token contract (token,
    receiver, amount) returns; it rejects otherwise;
  \<^item> \<open>downloadManifest\<close>, \<open>downloadResult\<close>: \<open>StorageClient.downloadFileFromUrl\<close>;
  \<^item> \<open>validateManifestDto\<close>, \<open>validateResultDto\<close>: the errors \<open>validate\<close> of
    \<open>class-validator\<close> finds for an object of the given class;
  \<^item> \<open>httpPost\<close>: whether the response body of the POST is truthy;
  \<^item> \<open>getResultsUrl\<close>: \<open>escrowClient.getResultsUrl\<close> on the job's chain.
\<close>

record env =
  JOB_LAUNCHER_FEE :: rat
  CVAT_JOB_SIZE :: rat
  CVAT_MAX_TIME :: rat
  CVAT_VAL_SIZE :: rat
  RECORDING_ORACLE_ADDRESS :: string
  REPUTATION_ORACLE_ADDRESS :: string
  RECORDING_ORACLE_FEE :: rat
  REPUTATION_ORACLE_FEE :: rat
  EXCHANGE_ORACLE_WEBHOOK_URL :: string
  NumericFieldOverflow :: string
  NETWORKS :: "int \<Rightarrow> string option"
  supportedChainIds :: "int list"
  getUserBalance :: "PaymentEntity list \<Rightarrow> nat \<Rightarrow> rat"
  getRate :: rat
  uploadFiles :: "manifest \<Rightarrow> (string \<times> string) option"
  selectNetwork :: "nat \<Rightarrow> int"
  jobRepositoryCreates :: bool
  paymentRepositoryCreate :: "PaymentEntity \<Rightarrow> thrown option"
  currentDate :: nat
  createAndSetupEscrow :: "int \<Rightarrow> string \<Rightarrow> EscrowConfig \<Rightarrow> string"
  tokenTransfer :: "string \<Rightarrow> string \<Rightarrow> int \<Rightarrow> bool"
  downloadManifest :: "string \<Rightarrow> manifest option"
  validateManifestDto :: "manifest_class \<Rightarrow> manifest \<Rightarrow> string list"
  httpPost :: "string \<Rightarrow> SendWebhookDto \<Rightarrow> bool"
  getResultsUrl :: "int \<Rightarrow> string option \<Rightarrow> string"
  downloadResult :: "string \<Rightarrow> json"
  validateResultDto :: "result_class \<Rightarrow> json \<Rightarrow> string list"

subsection \<open>String helpers\<close>

text \<open>JavaScript's \<open>toLowerCase\<close> on the ASCII letters, and \<open>includes\<close> (substring).\<close>

definition toLowerCase :: "string \<Rightarrow> string" where
  "toLowerCase s =
     map (\<lambda>c. case map_of (zip ''ABCDEFGHIJKLMNOPQRSTUVWXYZ'' ''abcdefghijklmnopqrstuvwxyz'') c of
                Some l \<Rightarrow> l
              | None \<Rightarrow> c) s"

fun string_includes :: "string \<Rightarrow> string \<Rightarrow> bool" where
  "string_includes [] t = (t = [])"
| "string_includes (c # cs) t = (take (length t) (c # cs) = t \<or> string_includes cs t)"

subsection \<open>Repositories and the routing selector\<close>

text \<open>
  Modelled from the spec: \<open>web3Service.validateChainId\<close> is not among the sources; the
  spec has it fail with InvalidChainId if the chain id is unsupported.
\<close>

definition validateChainId :: "env \<Rightarrow> int \<Rightarrow> exception option" where
  "validateChainId e c = (if c \<in> set (supportedChainIds e) then None else Some InvalidChainId)"

text \<open>
  Modelled from the spec: \<open>routingProtocolService.selectNetwork\<close> is not among the
  sources; the spec has it deterministic given the configuration and the call count.
\<close>

definition routingSelectNetwork :: "env \<Rightarrow> world \<Rightarrow> int \<times> world" where
  "routingSelectNetwork e s =
     (selectNetwork e (routingCalls s), s\<lparr>routingCalls := Suc (routingCalls s)\<rparr>)"

text \<open>The generated primary key of a new job row: greater than every id of the table.\<close>

definition generatedId :: "JobEntity list \<Rightarrow> nat" where
  "generatedId js = Suc (foldr max (map job_id js) 0)"

text \<open>\<open>jobRepository.create\<close>: the row is inserted under a generated id; the source
  checks the returned entity for falsiness, so a call that returns none is a branch.\<close>

definition jobRepository_create :: "env \<Rightarrow> JobEntity \<Rightarrow> world \<Rightarrow> JobEntity option \<times> world" where
  "jobRepository_create e j s =
     (if jobRepositoryCreates e
      then (let j' = j\<lparr>job_id := generatedId (jobs s)\<rparr>
            in (Some j', s\<lparr>jobs := jobs s @ [j'],
                            effects := effects s @ [JobInserted j']\<rparr>))
      else (None, s))"

definition paymentRepository_create :: "env \<Rightarrow> PaymentEntity \<Rightarrow> world \<Rightarrow> thrown option \<times> world" where
  "paymentRepository_create e p s =
     (case paymentRepositoryCreate e p of
        Some t \<Rightarrow> (Some t, s)
      | None \<Rightarrow> (None, s\<lparr>payments := payments s @ [p],
                            effects := effects s @ [PaymentCreated p]\<rparr>))"

text \<open>\<open>jobEntity.save()\<close>: the row with the entity's id is replaced, or the entity is
  inserted when the table has no such row.\<close>

definition save :: "JobEntity \<Rightarrow> world \<Rightarrow> world" where
  "save j s =
     s\<lparr>jobs := (if \<exists>r \<in> set (jobs s). job_id r = job_id j
                then map (\<lambda>r. if job_id r = job_id j then j else r) (jobs s)
                else jobs s @ [j]),
       effects := effects s @ [JobSaved j]\<rparr>"

text \<open>\<open>jobRepository.findOne({id, userId, status})\<close>.\<close>

definition jobRepository_findOne :: "nat \<Rightarrow> nat \<Rightarrow> JobStatus \<Rightarrow> world \<Rightarrow> JobEntity option" where
  "jobRepository_findOne jid uid st s =
     find (\<lambda>j. job_id j = jid \<and> userId j = uid \<and> status j = st) (jobs s)"

subsection \<open>\<open>saveManifest\<close>, \<open>getManifest\<close>, \<open>validateManifest\<close>, \<open>sendWebhook\<close>\<close>

definition saveManifest :: "env \<Rightarrow> manifest \<Rightarrow> world \<Rightarrow> (exception + string \<times> string) \<times> world" where
  "saveManifest e m s =
     (case uploadFiles e m of
        None \<Rightarrow> (Inl (BadGatewayException ErrorBucket_UnableSaveFile), s)
      | Some (url, hash) \<Rightarrow> (Inr (url, hash), s\<lparr>effects := effects s @ [ManifestUploaded m]\<rparr>))"

definition getManifest :: "env \<Rightarrow> string \<Rightarrow> exception + manifest" where
  "getManifest e url =
     (case downloadManifest e url of
        None \<Rightarrow> Inl (NotFoundException ErrorJob_ManifestNotFound)
      | Some m \<Rightarrow> Inr m)"

text \<open>\<open>(manifest as FortuneManifestDto).requestType == JobRequestType.FORTUNE\<close>.\<close>

definition isFortuneRequestType :: "manifest \<Rightarrow> bool" where
  "isFortuneRequestType m = (requestType m = Some (JobRequestType_value FORTUNE))"

definition validateManifest :: "env \<Rightarrow> manifest \<Rightarrow> exception + bool" where
  "validateManifest e m =
     (let dtoCheck = (if isFortuneRequestType m then FortuneManifestDto_class
                      else CvatManifestDto_class);
          validationErrors = validateManifestDto e dtoCheck m
      in if length validationErrors > 0
         then Inl (NotFoundException ErrorJob_ManifestValidationFailed)
         else Inr True)"

text \<open>The truthiness of \<open>(manifest as CvatManifestDto)?.annotation?.type\<close>: the
  document has an \<open>annotation\<close>, the annotation has a \<open>type\<close>, and the type is not the
  empty string.\<close>

definition annotationTypeTruthy :: "manifest \<Rightarrow> bool" where
  "annotationTypeTruthy m =
     (case annotation m of
        None \<Rightarrow> False
      | Some a \<Rightarrow> (case annotation_type a of None \<Rightarrow> False | Some t \<Rightarrow> t \<noteq> []))"

definition sendWebhook :: "env \<Rightarrow> string \<Rightarrow> SendWebhookDto \<Rightarrow> world \<Rightarrow> (exception + bool) \<times> world" where
  "sendWebhook e webhookUrl webhookData s =
     (let s' = s\<lparr>effects := effects s @ [WebhookPosted webhookUrl webhookData]\<rparr>
      in if \<not> httpPost e webhookUrl webhookData
         then (Inl (NotFoundException ErrorJob_WebhookWasNotSent), s')
         else (Inr True, s'))"

subsection \<open>\<open>createJob\<close>\<close>

text \<open>The properties of a request, as the object spread \<open>{...dto}\<close> copies them.\<close>

fun dto_properties :: "job_dto \<Rightarrow> (string \<times> json) list" where
  "dto_properties (Fortune d) = fortuneProperties d"
| "dto_properties (Cvat d) =
     [(''dataUrl'', JStr (dataUrl d)),
      (''labels'', JArr (map JStr (labels d))),
      (''requesterDescription'', JStr (requesterDescription d)),
      (''minQuality'', JNum (minQuality d)),
      (''gtUrl'', JStr (gtUrl d)),
      (''jobBounty'', JStr (jobBounty d))]"

text \<open>
  The manifest \<open>createJob\<close> uploads. In the annotation branch the source maps over
  \<open>dto.labels\<close>: on a fortune request, which has no labels, that is a \<open>TypeError\<close>.
\<close>

definition buildManifest :: "env \<Rightarrow> JobRequestType \<Rightarrow> job_dto \<Rightarrow> rat \<Rightarrow> exception + manifest" where
  "buildManifest e reqType dto tokenFundAmount =
     (if reqType = FORTUNE
      then Inr \<lparr>manifestProperties = dto_properties dto,
                manifestChainId = dto_chainId dto,
                requestType = Some (JobRequestType_value reqType),
                manifestFundAmount = Some tokenFundAmount,
                data_url = None,
                annotation = None,
                validation = None,
                job_bounty = None\<rparr>
      else (case dto of
              Fortune d \<Rightarrow> Inl TypeError
            | Cvat d \<Rightarrow>
                Inr \<lparr>manifestProperties = [],
                     manifestChainId = None,
                     requestType = None,
                     manifestFundAmount = None,
                     data_url = Some (dataUrl d),
                     annotation =
                       Some \<lparr>annotation_labels = Some (labels d),
                             annotation_description = requesterDescription d,
                             annotation_type = Some (JobRequestType_value reqType),
                             job_size = CVAT_JOB_SIZE e,
                             max_time = CVAT_MAX_TIME e\<rparr>,
                     validation =
                       Some \<lparr>min_quality = minQuality d,
                             val_size = CVAT_VAL_SIZE e,
                             gt_url = gtUrl d\<rparr>,
                     job_bounty = Some (jobBounty d)\<rparr>))"

text \<open>The test of the \<open>catch\<close> block: a \<open>QueryFailedError\<close> whose message includes the
  lower-cased \<open>ErrorPostgres.NumericFieldOverflow\<close>.\<close>

fun isNumericFieldOverflow :: "env \<Rightarrow> thrown \<Rightarrow> bool" where
  "isNumericFieldOverflow e (QueryFailedError msg) =
     string_includes msg (toLowerCase (NumericFieldOverflow e))"
| "isNumericFieldOverflow e (OtherError msg) = False"

text \<open>
  The \<open>try\<close> block: the payment record is built (its rate is \<open>div(1, rate)\<close>, which
  throws inside the block when the rate is zero) and created.
\<close>

definition tryCreatePayment :: "env \<Rightarrow> nat \<Rightarrow> rat \<Rightarrow> rat \<Rightarrow> world \<Rightarrow> thrown option \<times> world" where
  "tryCreatePayment e uid tokenTotalAmount rate s =
     (case div_decimal 1 rate of
        None \<Rightarrow> (Some (OtherError ''Division by zero''), s)
      | Some inverse_rate \<Rightarrow>
          paymentRepository_create e
            \<lparr>payment_userId = uid,
             payment_source = BALANCE,
             payment_type = WITHDRAWAL,
             payment_amount = - tokenTotalAmount,
             payment_currency = HMT,
             payment_rate = inverse_rate,
             payment_status = SUCCEEDED\<rparr> s)"

definition createJob ::
  "env \<Rightarrow> nat \<Rightarrow> JobRequestType \<Rightarrow> job_dto \<Rightarrow> world \<Rightarrow> (exception + nat) \<times> world" where
  "createJob e uid reqType dto s =
     (let chain = dto_chainId dto; fund = dto_fundAmount dto in
      case (case chain of
              None \<Rightarrow> None
            | Some c \<Rightarrow> if c \<noteq> 0 then validateChainId e c else None) of
        Some x \<Rightarrow> (Inl x, s)
      | None \<Rightarrow>
         (let userBalance = getUserBalance e (payments s) uid;
              rate = getRate e;
              feePercentage = JOB_LAUNCHER_FEE e in
          case div_decimal feePercentage 100 of
            None \<Rightarrow> (Inl DivisionByZero, s)
          | Some q \<Rightarrow>
             (let jobFee = mul q fund;
                  usdTotalAmount = add fund jobFee in
              if lt userBalance usdTotalAmount
              then (Inl (BadRequestException ErrorJob_NotEnoughFunds), s)
              else
               (let tokenFundAmount = mul fund rate;
                    tokenFee = mul jobFee rate;
                    tokenTotalAmount = add tokenFundAmount tokenFee in
                case buildManifest e reqType dto tokenFundAmount of
                  Inl x \<Rightarrow> (Inl x, s)
                | Inr m \<Rightarrow>
                   (case saveManifest e m s of
                      (Inl x, s1) \<Rightarrow> (Inl x, s1)
                    | (Inr (url, hash), s1) \<Rightarrow>
                       (let (cid, s2) = (case chain of
                                           Some c \<Rightarrow> (c, s1)
                                         | None \<Rightarrow> routingSelectNetwork e s1) in
                        case jobRepository_create e
                               \<lparr>job_id = 0,
                                chainId = cid,
                                userId = uid,
                                manifestUrl = url,
                                manifestHash = hash,
                                fee = tokenFee,
                                fundAmount = tokenFundAmount,
                                status = PENDING,
                                escrowAddress = None,
                                waitUntil = currentDate e\<rparr> s2 of
                          (None, s3) \<Rightarrow> (Inl (NotFoundException ErrorJob_NotCreated), s3)
                        | (Some jobEntity, s3) \<Rightarrow>
                           (case tryCreatePayment e uid tokenTotalAmount rate s3 of
                              (Some t, s4) \<Rightarrow>
                                (if isNumericFieldOverflow e t
                                 then (Inl (ConflictException ErrorPayment_IncorrectAmount), s4)
                                 else (Inl (ConflictException ErrorPayment_NotSuccess), s4))
                            | (None, s4) \<Rightarrow>
                                (let paid = jobEntity\<lparr>status := PAID\<rparr>
                                 in (Inr (job_id paid), save paid s4)))))))))"

subsection \<open>\<open>launchJob\<close>\<close>

text \<open>
  \<open>BigNumber.from\<close> of \<open>ethers\<close> on a JavaScript number: a number with a fractional
  part is an underflow fault, a number at or beyond \<open>0x1fffffffffffff\<close> in magnitude is
  an overflow fault, any other number is that integer.
\<close>

definition MAX_SAFE :: rat where
  "MAX_SAFE = 9007199254740991"

definition BigNumber_from :: "rat \<Rightarrow> exception + int" where
  "BigNumber_from v =
     (if of_int \<lfloor>v\<rfloor> \<noteq> v then Inl NumericFault_underflow
      else if v \<ge> MAX_SAFE \<or> v \<le> - MAX_SAFE then Inl NumericFault_overflow
      else Inr \<lfloor>v\<rfloor>)"

text \<open>
  \<open>tokenContract.transfer(escrowAddress, jobEntity.fundAmount)\<close>: the amount is converted
  with \<open>BigNumber.from\<close> and encoded as a \<open>uint256\<close>, which refuses a negative value;
  then the contract is called.
\<close>

definition tokenContract_transfer ::
  "env \<Rightarrow> string \<Rightarrow> string \<Rightarrow> rat \<Rightarrow> world \<Rightarrow> exception option \<times> world" where
  "tokenContract_transfer e token receiver amount s =
     (case BigNumber_from amount of
        Inl x \<Rightarrow> (Some x, s)
      | Inr n \<Rightarrow>
          if n < 0 then (Some ValueOutOfBounds, s)
          else if \<not> tokenTransfer e token receiver n then (Some CallException, s)
          else (None, s\<lparr>effects := effects s @ [TokensTransferred token receiver n]\<rparr>))"

text \<open>
  The escrow configuration is built first, with its two \<open>BigNumber.from\<close>. Then
  \<open>NETWORKS[jobEntity.chainId]!.hmtAddress\<close> reads a property of \<open>undefined\<close> when the
  table has no such chain: a \<open>TypeError\<close>, before the escrow is asked for.
\<close>

definition launchJob :: "env \<Rightarrow> JobEntity \<Rightarrow> world \<Rightarrow> (exception + JobEntity) \<times> world" where
  "launchJob e jobEntity s =
     (case BigNumber_from (RECORDING_ORACLE_FEE e) of
        Inl x \<Rightarrow> (Inl x, s)
      | Inr recordingFee \<Rightarrow>
     (case BigNumber_from (REPUTATION_ORACLE_FEE e) of
        Inl x \<Rightarrow> (Inl x, s)
      | Inr reputationFee \<Rightarrow>
     (let escrowConfig =
            \<lparr>recordingOracle = RECORDING_ORACLE_ADDRESS e,
             reputationOracle = REPUTATION_ORACLE_ADDRESS e,
             recordingOracleFee = recordingFee,
             reputationOracleFee = reputationFee,
             escrowManifestUrl = manifestUrl jobEntity,
             escrowManifestHash = manifestHash jobEntity\<rparr> in
      case NETWORKS e (chainId jobEntity) of
        None \<Rightarrow> (Inl TypeError, s)
      | Some hmtAddress \<Rightarrow>
         (let address = createAndSetupEscrow e (chainId jobEntity) hmtAddress escrowConfig in
          if address = []
          then (Inl (NotFoundException ErrorEscrow_NotCreated), s)
          else
           (let s1 = s\<lparr>effects := effects s @ [EscrowCreated hmtAddress escrowConfig address]\<rparr> in
            case getManifest e (manifestUrl jobEntity) of
              Inl x \<Rightarrow> (Inl x, s1)
            | Inr m \<Rightarrow>
               (case validateManifest e m of
                  Inl x \<Rightarrow> (Inl x, s1)
                | Inr ok \<Rightarrow>
                   (case tokenContract_transfer e hmtAddress address (fundAmount jobEntity) s1 of
                      (Some x, s2) \<Rightarrow> (Inl x, s2)
                    | (None, s2) \<Rightarrow>
                       (let launched =
                              jobEntity\<lparr>escrowAddress := Some address, status := LAUNCHED\<rparr>;
                            s3 = save launched s2 in
                        if annotationTypeTruthy m
                        then (case sendWebhook e (EXCHANGE_ORACLE_WEBHOOK_URL e)
                                     \<lparr>webhookEscrowAddress = escrowAddress launched,
                                      webhookChainId = chainId launched\<rparr> s3 of
                                (Inl x, s4) \<Rightarrow> (Inl x, s4)
                              | (Inr sent, s4) \<Rightarrow> (Inr launched, s4))
                        else (Inr launched, s3)))))))))"

subsection \<open>\<open>getResult\<close>\<close>

definition getResult :: "env \<Rightarrow> nat \<Rightarrow> nat \<Rightarrow> world \<Rightarrow> exception + json" where
  "getResult e uid jid s =
     (case jobRepository_findOne jid uid LAUNCHED s of
        None \<Rightarrow> Inl (NotFoundException ErrorJob_NotFound)
      | Some jobEntity \<Rightarrow>
         (let finalResultUrl = getResultsUrl e (chainId jobEntity) (escrowAddress jobEntity) in
          if finalResultUrl = []
          then Inl (NotFoundException ErrorJob_ResultNotFound)
          else
           (let result = downloadResult e finalResultUrl in
            if \<not> truthy result
            then Inl (NotFoundException ErrorJob_ResultNotFound)
            else
             (let fortuneValidationErrors = validateResultDto e FortuneFinalResultDto_class result;
                  imageLabelBinaryValidationErrors =
                    validateResultDto e CvatFinalResultDto_class result in
              if length fortuneValidationErrors > 0 \<and> length imageLabelBinaryValidationErrors > 0
              then Inl (NotFoundException ErrorJob_ResultValidationFailed)
              else Inr result))))"

section \<open>Reputation oracle: \<open>filterAddressesToReward\<close>\<close>

record FortuneEntry =
  worker :: string
  fortune :: string

record ReputationEntry =
  workerAddress :: string
  reputation :: int

record Rewards =
  workerAddresses :: "string list"
  reputationValues :: "ReputationEntry list"

text \<open>
  \<open>tmpHashMap\<close> is the object literal \<open>{}\<close>: a read \<open>tmpHashMap[key]\<close> finds the object's
  own property or, when it has none of that name, the property its prototype
  \<open>Object.prototype\<close> has. The prototype's properties are functions (and, under
  \<open>__proto__\<close>, the prototype object itself), so each of them is truthy.
\<close>

definition objectPrototypeProperties :: "string list" where
  "objectPrototypeProperties =
     [''constructor'', ''hasOwnProperty'', ''isPrototypeOf'', ''propertyIsEnumerable'',
      ''toLocaleString'', ''toString'', ''valueOf'', ''__proto__'',
      ''__defineGetter__'', ''__defineSetter__'', ''__lookupGetter__'', ''__lookupSetter__'']"

definition readProperty :: "(string \<rightharpoonup> bool) \<Rightarrow> string \<Rightarrow> bool" where
  "readProperty obj key =
     (case obj key of
        Some b \<Rightarrow> b
      | None \<Rightarrow> key \<in> set objectPrototypeProperties)"

text \<open>The body of the \<open>forEach\<close>, on the three accumulators \<open>filteredResults\<close>,
  \<open>reputationValues\<close> and \<open>tmpHashMap\<close>.\<close>

fun forEachEntry ::
  "FortuneEntry list \<Rightarrow> FortuneEntry list \<times> ReputationEntry list \<times> (string \<rightharpoonup> bool) \<Rightarrow>
   FortuneEntry list \<times> ReputationEntry list \<times> (string \<rightharpoonup> bool)" where
  "forEachEntry [] acc = acc"
| "forEachEntry (fortuneEntry # rest) (filteredResults, repValues, tmpHashMap) =
     (if readProperty tmpHashMap (fortune fortuneEntry)
      then forEachEntry rest
             (filteredResults,
              repValues @ [\<lparr>workerAddress = worker fortuneEntry, reputation = - 1\<rparr>],
              tmpHashMap)
      else forEachEntry rest
             (filteredResults @ [fortuneEntry],
              repValues @ [\<lparr>workerAddress = worker fortuneEntry, reputation = 1\<rparr>],
              tmpHashMap(fortune fortuneEntry \<mapsto> True)))"

text \<open>\<open>toChecksumAddress\<close> is \<open>web3.utils.toChecksumAddress\<close>, a parameter.\<close>

definition filterAddressesToReward :: "(string \<Rightarrow> string) \<Rightarrow> FortuneEntry list \<Rightarrow> Rewards" where
  "filterAddressesToReward toChecksumAddress addressFortunesEntries =
     (case forEachEntry addressFortunesEntries ([], [], Map.empty) of
        (filteredResults, repValues, tmpHashMap) \<Rightarrow>
          \<lparr>workerAddresses = map toChecksumAddress (map worker filteredResults),
           reputationValues = repValues\<rparr>)"

text \<open>
  What the claim about \<open>filterAddressesToReward\<close> says, in its words: one reputation
  entry per input entry, in input order, +1 for the first entry bearing a fortune and
  -1 for a later entry repeating a fortune seen before; and the retained entries, the
  first occurrences, in input order. \<open>seen\<close> is the set of the fortunes of the earlier
  entries.
\<close>

fun reputations_spec :: "string set \<Rightarrow> FortuneEntry list \<Rightarrow> ReputationEntry list" where
  "reputations_spec seen [] = []"
| "reputations_spec seen (x # xs) =
     \<lparr>workerAddress = worker x, reputation = (if fortune x \<in> seen then - 1 else 1)\<rparr>
       # reputations_spec (insert (fortune x) seen) xs"

fun retained_spec :: "string set \<Rightarrow> FortuneEntry list \<Rightarrow> FortuneEntry list" where
  "retained_spec seen [] = []"
| "retained_spec seen (x # xs) =
     (if fortune x \<in> seen then retained_spec seen xs
      else x # retained_spec (insert (fortune x) seen) xs)"

section \<open>Concrete scenarios\<close>

text \<open>
  A configuration for the concrete scenarios: a launcher fee of 10 percent, an exchange
  rate of 2 tokens per USD, a user balance of 100 USD, one supported chain (80001), and
  collaborators that succeed. The validators accept as a fortune manifest a document
  with the request type \<open>FORTUNE\<close> and a fund amount, and as an annotation manifest a
  document whose annotation has labels; a final result is valid as a fortune result
  when it is an array and as an annotation result when it is an object.
\<close>

definition scenario_cvat_manifest :: "string list option \<Rightarrow> manifest" where
  "scenario_cvat_manifest ls =
     \<lparr>manifestProperties = [],
      manifestChainId = None,
      requestType = None,
      manifestFundAmount = None,
      data_url = Some ''http://bucket/images'',
      annotation =
        Some \<lparr>annotation_labels = ls,
              annotation_description = ''label the points'',
              annotation_type = Some ''IMAGE_POINTS'',
              job_size = 10,
              max_time = 300\<rparr>,
      validation = Some \<lparr>min_quality = 1 / 2, val_size = 2, gt_url = ''http://bucket/gt''\<rparr>,
      job_bounty = Some ''1''\<rparr>"

definition scenario_fortune_manifest :: manifest where
  "scenario_fortune_manifest =
     \<lparr>manifestProperties = [(''requesterTitle'', JStr ''a fortune'')],
      manifestChainId = None,
      requestType = Some ''FORTUNE'',
      manifestFundAmount = Some 100,
      data_url = None,
      annotation = None,
      validation = None,
      job_bounty = None\<rparr>"

text \<open>A fortune manifest that also carries an \<open>annotation\<close> with a \<open>type\<close>.\<close>

definition scenario_mixed_manifest :: manifest where
  "scenario_mixed_manifest =
     scenario_fortune_manifest
       \<lparr>annotation :=
          Some \<lparr>annotation_labels = None,
                annotation_description = [],
                annotation_type = Some ''IMAGE_POINTS'',
                job_size = 10,
                max_time = 300\<rparr>\<rparr>"

definition scenario_validateManifestDto :: "manifest_class \<Rightarrow> manifest \<Rightarrow> string list" where
  "scenario_validateManifestDto cls m =
     (case cls of
        FortuneManifestDto_class \<Rightarrow>
          (if requestType m = Some ''FORTUNE'' \<and> manifestFundAmount m \<noteq> None then []
           else [''requestType must be a valid enum value''])
      | CvatManifestDto_class \<Rightarrow>
          (case annotation m of
             None \<Rightarrow> [''annotation must be an object'']
           | Some a \<Rightarrow>
               (case annotation_labels a of
                  None \<Rightarrow> [''labels should not be empty'']
                | Some ls \<Rightarrow> if ls = [] then [''labels should not be empty''] else [])))"

definition scenario_validateResultDto :: "result_class \<Rightarrow> json \<Rightarrow> string list" where
  "scenario_validateResultDto cls r =
     (case cls of
        FortuneFinalResultDto_class \<Rightarrow>
          (case r of JArr xs \<Rightarrow> [] | _ \<Rightarrow> [''a fortune result is an array''])
      | CvatFinalResultDto_class \<Rightarrow>
          (case r of JObj kvs \<Rightarrow> [] | _ \<Rightarrow> [''an annotation result is an object'']))"

definition scenario_env :: env where
  "scenario_env =
     \<lparr>JOB_LAUNCHER_FEE = 10,
      CVAT_JOB_SIZE = 10,
      CVAT_MAX_TIME = 300,
      CVAT_VAL_SIZE = 2,
      RECORDING_ORACLE_ADDRESS = ''0xRecordingOracle'',
      REPUTATION_ORACLE_ADDRESS = ''0xReputationOracle'',
      RECORDING_ORACLE_FEE = 1,
      REPUTATION_ORACLE_FEE = 1,
      EXCHANGE_ORACLE_WEBHOOK_URL = ''http://exchange-oracle/webhook'',
      NumericFieldOverflow = ''Numeric field overflow'',
      NETWORKS = (\<lambda>c. if c = 80001 then Some ''0xHMToken'' else None),
      supportedChainIds = [80001],
      getUserBalance = (\<lambda>ps u. 100),
      getRate = 2,
      uploadFiles = (\<lambda>m. Some (''http://bucket/manifest.json'', ''0xhash'')),
      selectNetwork = (\<lambda>n. 80001),
      jobRepositoryCreates = True,
      paymentRepositoryCreate = (\<lambda>p. None),
      currentDate = 0,
      createAndSetupEscrow = (\<lambda>c token cfg. ''0xEscrow''),
      tokenTransfer = (\<lambda>token receiver amount. True),
      downloadManifest =
        (\<lambda>u. if u = ''http://bucket/manifest.json'' then Some scenario_fortune_manifest
             else if u = ''http://bucket/cvat.json''
               then Some (scenario_cvat_manifest (Some [''cat'']))
             else if u = ''http://bucket/nolabels.json''
               then Some (scenario_cvat_manifest None)
             else if u = ''http://bucket/mixed.json'' then Some scenario_mixed_manifest
             else None),
      validateManifestDto = scenario_validateManifestDto,
      httpPost = (\<lambda>u d. True),
      getResultsUrl = (\<lambda>c a. ''http://bucket/result.json''),
      downloadResult = (\<lambda>u. JArr [JStr ''a fortune'']),
      validateResultDto = scenario_validateResultDto\<rparr>"

definition scenario_world :: world where
  "scenario_world = \<lparr>jobs = [], payments = [], routingCalls = 0, effects = []\<rparr>"

definition scenario_request :: "rat \<Rightarrow> int option \<Rightarrow> job_dto" where
  "scenario_request amount chain =
     Fortune \<lparr>fortuneChainId = chain, fortuneFundAmount = amount,
              fortuneProperties = [(''requesterTitle'', JStr ''a fortune'')]\<rparr>"

definition scenario_job :: "string \<Rightarrow> JobStatus \<Rightarrow> JobEntity" where
  "scenario_job url st =
     \<lparr>job_id = 1, chainId = 80001, userId = 1, manifestUrl = url, manifestHash = ''0xhash'',
      fee = 10, fundAmount = 100, status = st, escrowAddress = None, waitUntil = 0\<rparr>"

text \<open>Three fortune entries: the first worker sends the fortune \<open>constructor\<close>, the
  other two send the same ordinary fortune.\<close>

definition scenario_worker1 :: string where
  "scenario_worker1 = ''0x0000000000000000000000000000000000000001''"

definition scenario_worker2 :: string where
  "scenario_worker2 = ''0x0000000000000000000000000000000000000002''"

definition scenario_worker3 :: string where
  "scenario_worker3 = ''0x0000000000000000000000000000000000000003''"

definition scenario_entries :: "FortuneEntry list" where
  "scenario_entries =
     [\<lparr>worker = scenario_worker1, fortune = ''constructor''\<rparr>,
      \<lparr>worker = scenario_worker2, fortune = ''good luck''\<rparr>,
      \<lparr>worker = scenario_worker3, fortune = ''good luck''\<rparr>]"

section \<open>Lemmas about \<open>createJob\<close>\<close>

subsection \<open>Arithmetic of the amounts\<close>

lemma div_decimal_100: "div_decimal a 100 = Some (a / 100)"
  by (simp add: div_decimal_def)

subsection \<open>Generated ids\<close>

lemma generatedId_fresh: "r \<in> set js \<Longrightarrow> job_id r < generatedId js"
  unfolding generatedId_def by (induction js) (auto simp: less_Suc_eq_le max_def)

lemma generatedId_not_in: "r \<in> set js \<Longrightarrow> job_id r \<noteq> generatedId js"
  using generatedId_fresh [of r js] by simp

lemma replace_generated:
  "map (\<lambda>r. if job_id r = generatedId js then j' else r) js = js"
  by (rule map_idI) (simp add: generatedId_not_in)

subsection \<open>The paths of \<open>createJob\<close>\<close>

lemma chain_check:
  "(case chain of None \<Rightarrow> None | Some c \<Rightarrow> if c \<noteq> 0 then validateChainId e c else None) =
     (if (case chain of None \<Rightarrow> True | Some c \<Rightarrow> c = 0 \<or> c \<in> set (supportedChainIds e))
      then None else Some InvalidChainId)"
  by (simp add: validateChainId_def split: option.splits)

lemma buildManifest_Inl: "buildManifest e reqType dto a = Inl x \<Longrightarrow> x = TypeError"
  by (auto simp: buildManifest_def split: if_splits job_dto.splits)

lemmas createJob_unfold =
  createJob_def Let_def chain_check div_decimal_100 saveManifest_def jobRepository_create_def
  tryCreatePayment_def paymentRepository_create_def routingSelectNetwork_def save_def
  replace_generated div_decimal_def

lemma createJob_invalid_chain:
  assumes "\<not> (case dto_chainId dto of
                None \<Rightarrow> True
              | Some c \<Rightarrow> c = 0 \<or> c \<in> set (supportedChainIds e))"
  shows "createJob e uid reqType dto s = (Inl InvalidChainId, s)"
  using assms by (simp add: createJob_unfold)

lemma createJob_not_enough_funds:
  assumes "case dto_chainId dto of
             None \<Rightarrow> True
           | Some c \<Rightarrow> c = 0 \<or> c \<in> set (supportedChainIds e)"
    and "lt (getUserBalance e (payments s) uid)
            (add (dto_fundAmount dto) (mul (JOB_LAUNCHER_FEE e / 100) (dto_fundAmount dto)))"
  shows "createJob e uid reqType dto s = (Inl (BadRequestException ErrorJob_NotEnoughFunds), s)"
  using assms by (simp add: createJob_unfold)

lemma createJob_no_manifest:
  assumes "case dto_chainId dto of
             None \<Rightarrow> True
           | Some c \<Rightarrow> c = 0 \<or> c \<in> set (supportedChainIds e)"
    and "\<not> lt (getUserBalance e (payments s) uid)
            (add (dto_fundAmount dto) (mul (JOB_LAUNCHER_FEE e / 100) (dto_fundAmount dto)))"
    and "buildManifest e reqType dto (mul (dto_fundAmount dto) (getRate e)) = Inl x"
  shows "createJob e uid reqType dto s = (Inl x, s)"
  using assms by (simp add: createJob_unfold)

lemma createJob_upload_failed:
  assumes "case dto_chainId dto of
             None \<Rightarrow> True
           | Some c \<Rightarrow> c = 0 \<or> c \<in> set (supportedChainIds e)"
    and "\<not> lt (getUserBalance e (payments s) uid)
            (add (dto_fundAmount dto) (mul (JOB_LAUNCHER_FEE e / 100) (dto_fundAmount dto)))"
    and "buildManifest e reqType dto (mul (dto_fundAmount dto) (getRate e)) = Inr m"
    and "uploadFiles e m = None"
  shows "createJob e uid reqType dto s = (Inl (BadGatewayException ErrorBucket_UnableSaveFile), s)"
  using assms by (simp add: createJob_unfold)

lemma createJob_not_created:
  assumes "case dto_chainId dto of
             None \<Rightarrow> True
           | Some c \<Rightarrow> c = 0 \<or> c \<in> set (supportedChainIds e)"
    and "\<not> lt (getUserBalance e (payments s) uid)
            (add (dto_fundAmount dto) (mul (JOB_LAUNCHER_FEE e / 100) (dto_fundAmount dto)))"
    and "buildManifest e reqType dto (mul (dto_fundAmount dto) (getRate e)) = Inr m"
    and "uploadFiles e m = Some (url, hash)"
    and "\<not> jobRepositoryCreates e"
  shows "createJob e uid reqType dto s =
           (Inl (NotFoundException ErrorJob_NotCreated),
            s\<lparr>routingCalls := (if dto_chainId dto = None then Suc (routingCalls s)
                                else routingCalls s),
              effects := effects s @ [ManifestUploaded m]\<rparr>)"
  using assms by (cases "dto_chainId dto") (simp_all add: createJob_unfold)

lemma createJob_payment_failed:
  fixes e uid reqType dto s
  defines "fund \<equiv> dto_fundAmount dto"
  defines "jobFee \<equiv> mul (JOB_LAUNCHER_FEE e / 100) fund"
  defines "tokenFundAmount \<equiv> mul fund (getRate e)"
  defines "tokenFee \<equiv> mul jobFee (getRate e)"
  assumes "case dto_chainId dto of
             None \<Rightarrow> True
           | Some c \<Rightarrow> c = 0 \<or> c \<in> set (supportedChainIds e)"
    and "\<not> lt (getUserBalance e (payments s) uid) (add fund jobFee)"
    and "buildManifest e reqType dto tokenFundAmount = Inr m"
    and "uploadFiles e m = Some (url, hash)"
    and "jobRepositoryCreates e"
    and "j = \<lparr>job_id = generatedId (jobs s),
              chainId = (case dto_chainId dto of
                           Some c \<Rightarrow> c
                         | None \<Rightarrow> selectNetwork e (routingCalls s)),
              userId = uid, manifestUrl = url,
              manifestHash = hash, fee = tokenFee, fundAmount = tokenFundAmount,
              status = PENDING, escrowAddress = None, waitUntil = currentDate e\<rparr>"
    and "fst (tryCreatePayment e uid (add tokenFundAmount tokenFee) (getRate e) w) = Some t"
  shows "createJob e uid reqType dto s =
           (Inl (ConflictException (if isNumericFieldOverflow e t
                                    then ErrorPayment_IncorrectAmount
                                    else ErrorPayment_NotSuccess)),
            s\<lparr>jobs := jobs s @ [j],
              routingCalls := (if dto_chainId dto = None then Suc (routingCalls s)
                                else routingCalls s),
              effects := effects s @ [ManifestUploaded m, JobInserted j]\<rparr>)"
  using assms
  by (cases "dto_chainId dto")
     (auto simp: createJob_unfold split: option.splits if_splits)

lemma createJob_paid:
  fixes e uid reqType dto s
  defines "fund \<equiv> dto_fundAmount dto"
  defines "jobFee \<equiv> mul (JOB_LAUNCHER_FEE e / 100) fund"
  defines "tokenFundAmount \<equiv> mul fund (getRate e)"
  defines "tokenFee \<equiv> mul jobFee (getRate e)"
  assumes "case dto_chainId dto of
             None \<Rightarrow> True
           | Some c \<Rightarrow> c = 0 \<or> c \<in> set (supportedChainIds e)"
    and "\<not> lt (getUserBalance e (payments s) uid) (add fund jobFee)"
    and "buildManifest e reqType dto tokenFundAmount = Inr m"
    and "uploadFiles e m = Some (url, hash)"
    and "jobRepositoryCreates e"
    and "j = \<lparr>job_id = generatedId (jobs s),
              chainId = (case dto_chainId dto of
                           Some c \<Rightarrow> c
                         | None \<Rightarrow> selectNetwork e (routingCalls s)),
              userId = uid, manifestUrl = url,
              manifestHash = hash, fee = tokenFee, fundAmount = tokenFundAmount,
              status = PENDING, escrowAddress = None, waitUntil = currentDate e\<rparr>"
    and "p = \<lparr>payment_userId = uid, payment_source = BALANCE, payment_type = WITHDRAWAL,
              payment_amount = - add tokenFundAmount tokenFee, payment_currency = HMT,
              payment_rate = 1 / getRate e, payment_status = SUCCEEDED\<rparr>"
    and "fst (tryCreatePayment e uid (add tokenFundAmount tokenFee) (getRate e) w) = None"
  shows "createJob e uid reqType dto s =
           (Inr (generatedId (jobs s)),
            s\<lparr>jobs := jobs s @ [j\<lparr>status := PAID\<rparr>],
              payments := payments s @ [p],
              routingCalls := (if dto_chainId dto = None then Suc (routingCalls s)
                                else routingCalls s),
              effects := effects s @ [ManifestUploaded m, JobInserted j, PaymentCreated p,
                                      JobSaved (j\<lparr>status := PAID\<rparr>)]\<rparr>)"
  using assms
  by (cases "dto_chainId dto")
     (auto simp: createJob_unfold split: option.splits if_splits)

text \<open>
  Every call takes one of seven paths; each comes with the conditions under which it is
  taken, and with the result and the state it ends in.
\<close>

lemma createJob_cases:
  obtains
    (invalid_chain)
      "\<not> (case dto_chainId dto of
                None \<Rightarrow> True
              | Some c \<Rightarrow> c = 0 \<or> c \<in> set (supportedChainIds e))"
      "createJob e uid reqType dto s = (Inl InvalidChainId, s)"
  | (not_enough_funds)
      "(case dto_chainId dto of
          None \<Rightarrow> True
        | Some c \<Rightarrow> c = 0 \<or> c \<in> set (supportedChainIds e))"
      "lt (getUserBalance e (payments s) uid)
          (add (dto_fundAmount dto) (mul (JOB_LAUNCHER_FEE e / 100) (dto_fundAmount dto)))"
      "createJob e uid reqType dto s = (Inl (BadRequestException ErrorJob_NotEnoughFunds), s)"
  | (no_manifest)
      "(case dto_chainId dto of
          None \<Rightarrow> True
        | Some c \<Rightarrow> c = 0 \<or> c \<in> set (supportedChainIds e))"
      "\<not> lt (getUserBalance e (payments s) uid)
          (add (dto_fundAmount dto) (mul (JOB_LAUNCHER_FEE e / 100) (dto_fundAmount dto)))"
      "buildManifest e reqType dto (mul (dto_fundAmount dto) (getRate e)) = Inl TypeError"
      "createJob e uid reqType dto s = (Inl TypeError, s)"
  | (upload_failed) m where
      "(case dto_chainId dto of
          None \<Rightarrow> True
        | Some c \<Rightarrow> c = 0 \<or> c \<in> set (supportedChainIds e))"
      "\<not> lt (getUserBalance e (payments s) uid)
          (add (dto_fundAmount dto) (mul (JOB_LAUNCHER_FEE e / 100) (dto_fundAmount dto)))"
      "buildManifest e reqType dto (mul (dto_fundAmount dto) (getRate e)) = Inr m"
      "uploadFiles e m = None"
      "createJob e uid reqType dto s = (Inl (BadGatewayException ErrorBucket_UnableSaveFile), s)"
  | (not_created) m url hash where
      "(case dto_chainId dto of
          None \<Rightarrow> True
        | Some c \<Rightarrow> c = 0 \<or> c \<in> set (supportedChainIds e))"
      "\<not> lt (getUserBalance e (payments s) uid)
          (add (dto_fundAmount dto) (mul (JOB_LAUNCHER_FEE e / 100) (dto_fundAmount dto)))"
      "buildManifest e reqType dto (mul (dto_fundAmount dto) (getRate e)) = Inr m"
      "uploadFiles e m = Some (url, hash)"
      "\<not> jobRepositoryCreates e"
      "createJob e uid reqType dto s =
         (Inl (NotFoundException ErrorJob_NotCreated),
          s\<lparr>routingCalls := (if dto_chainId dto = None then Suc (routingCalls s) else routingCalls s),
            effects := effects s @ [ManifestUploaded m]\<rparr>)"
  | (payment_failed) m url hash j t where
      "(case dto_chainId dto of
          None \<Rightarrow> True
        | Some c \<Rightarrow> c = 0 \<or> c \<in> set (supportedChainIds e))"
      "\<not> lt (getUserBalance e (payments s) uid)
          (add (dto_fundAmount dto) (mul (JOB_LAUNCHER_FEE e / 100) (dto_fundAmount dto)))"
      "buildManifest e reqType dto (mul (dto_fundAmount dto) (getRate e)) = Inr m"
      "uploadFiles e m = Some (url, hash)"
      "jobRepositoryCreates e"
      "j = \<lparr>job_id = generatedId (jobs s), chainId = (case dto_chainId dto of
                            Some c \<Rightarrow> c
                          | None \<Rightarrow> selectNetwork e (routingCalls s)),
                userId = uid, manifestUrl = url, manifestHash = hash,
                fee = mul (mul (JOB_LAUNCHER_FEE e / 100) (dto_fundAmount dto)) (getRate e),
                fundAmount = mul (dto_fundAmount dto) (getRate e),
                status = PENDING, escrowAddress = None, waitUntil = currentDate e\<rparr>"
      "fst (tryCreatePayment e uid (add (mul (dto_fundAmount dto) (getRate e))
                    (mul (mul (JOB_LAUNCHER_FEE e / 100) (dto_fundAmount dto)) (getRate e))) (getRate e) s) = Some t"
      "createJob e uid reqType dto s =
         (Inl (ConflictException (if isNumericFieldOverflow e t
                                  then ErrorPayment_IncorrectAmount
                                  else ErrorPayment_NotSuccess)),
          s\<lparr>jobs := jobs s @ [j],
            routingCalls := (if dto_chainId dto = None then Suc (routingCalls s) else routingCalls s),
            effects := effects s @ [ManifestUploaded m, JobInserted j]\<rparr>)"
  | (paid) m url hash j p where
      "(case dto_chainId dto of
          None \<Rightarrow> True
        | Some c \<Rightarrow> c = 0 \<or> c \<in> set (supportedChainIds e))"
      "\<not> lt (getUserBalance e (payments s) uid)
          (add (dto_fundAmount dto) (mul (JOB_LAUNCHER_FEE e / 100) (dto_fundAmount dto)))"
      "buildManifest e reqType dto (mul (dto_fundAmount dto) (getRate e)) = Inr m"
      "uploadFiles e m = Some (url, hash)"
      "jobRepositoryCreates e"
      "j = \<lparr>job_id = generatedId (jobs s), chainId = (case dto_chainId dto of
                            Some c \<Rightarrow> c
                          | None \<Rightarrow> selectNetwork e (routingCalls s)),
                userId = uid, manifestUrl = url, manifestHash = hash,
                fee = mul (mul (JOB_LAUNCHER_FEE e / 100) (dto_fundAmount dto)) (getRate e),
                fundAmount = mul (dto_fundAmount dto) (getRate e),
                status = PENDING, escrowAddress = None, waitUntil = currentDate e\<rparr>"
      "p = \<lparr>payment_userId = uid, payment_source = BALANCE, payment_type = WITHDRAWAL,
                payment_amount = - add (mul (dto_fundAmount dto) (getRate e))
                      (mul (mul (JOB_LAUNCHER_FEE e / 100) (dto_fundAmount dto)) (getRate e)),
                payment_currency = HMT, payment_rate = 1 / getRate e,
                payment_status = SUCCEEDED\<rparr>"
      "fst (tryCreatePayment e uid (add (mul (dto_fundAmount dto) (getRate e))
                    (mul (mul (JOB_LAUNCHER_FEE e / 100) (dto_fundAmount dto)) (getRate e))) (getRate e) s) = None"
      "createJob e uid reqType dto s =
         (Inr (generatedId (jobs s)),
          s\<lparr>jobs := jobs s @ [j\<lparr>status := PAID\<rparr>],
            payments := payments s @ [p],
            routingCalls := (if dto_chainId dto = None then Suc (routingCalls s) else routingCalls s),
            effects := effects s @ [ManifestUploaded m, JobInserted j, PaymentCreated p,
                                    JobSaved (j\<lparr>status := PAID\<rparr>)]\<rparr>)"
proof (cases "(case dto_chainId dto of
           None \<Rightarrow> True
         | Some c \<Rightarrow> c = 0 \<or> c \<in> set (supportedChainIds e))")
  case False
  then show thesis
    using invalid_chain
      createJob_invalid_chain
        [where dto=dto and e=e and uid=uid and reqType=reqType and s=s] by simp
next
  case accepted: True
  show thesis
  proof (cases "lt (getUserBalance e (payments s) uid)
          (add (dto_fundAmount dto) (mul (JOB_LAUNCHER_FEE e / 100) (dto_fundAmount dto)))")
    case True
    then show thesis
      using accepted not_enough_funds
        createJob_not_enough_funds
          [where dto=dto and e=e and uid=uid and reqType=reqType and s=s]
      by simp
  next
    case funds: False
    show thesis
    proof (cases "buildManifest e reqType dto (mul (dto_fundAmount dto) (getRate e))")
      case (Inl x)
      then have "x = TypeError"
        by (rule buildManifest_Inl)
      with Inl show thesis
        using accepted funds no_manifest
          createJob_no_manifest
            [where dto=dto and e=e and uid=uid and reqType=reqType and s=s and x=x]
        by simp
    next
      case built: (Inr m)
      show thesis
      proof (cases "uploadFiles e m")
        case None
        then show thesis
          using accepted funds built upload_failed [of m]
            createJob_upload_failed
              [where dto=dto and e=e and uid=uid and reqType=reqType and s=s and m=m]
          by simp
      next
        case (Some uploaded)
        then obtain url hash where uploaded: "uploadFiles e m = Some (url, hash)"
          by (cases uploaded) simp
        show thesis
        proof (cases "jobRepositoryCreates e")
          case False
          then show thesis
            using accepted funds built uploaded not_created [of m url hash]
              createJob_not_created
                [where dto=dto and e=e and uid=uid and reqType=reqType and s=s and m=m and url=url and hash=hash]
            by simp
        next
          case creates: True
          show thesis
          proof (cases "fst (tryCreatePayment e uid (add (mul (dto_fundAmount dto) (getRate e))
                    (mul (mul (JOB_LAUNCHER_FEE e / 100) (dto_fundAmount dto)) (getRate e))) (getRate e) s)")
            case None
            then show thesis
              using accepted funds built uploaded creates
                paid [of m url hash, OF _ _ _ _ _ refl refl]
                createJob_paid
                  [where dto=dto and e=e and uid=uid and reqType=reqType and s=s and m=m
                     and url=url and hash=hash and w=s, OF _ _ _ _ _ refl refl]
              by simp
          next
            case (Some t)
            then show thesis
              using accepted funds built uploaded creates
                payment_failed [of m url hash _ t, OF _ _ _ _ _ refl]
                createJob_payment_failed
                  [where dto=dto and e=e and uid=uid and reqType=reqType and s=s and m=m
                     and url=url and hash=hash and w=s and t=t, OF _ _ _ _ _ refl]
              by simp
          qed
        qed
      qed
    qed
  qed
qed

lemmas scenario_defs =
  scenario_env_def scenario_world_def scenario_request_def scenario_job_def
  scenario_fortune_manifest_def scenario_cvat_manifest_def scenario_mixed_manifest_def
  scenario_validateManifestDto_def scenario_validateResultDto_def

lemmas model_defs =
  createJob_def Let_def validateChainId_def div_decimal_def add_def mul_def lt_def
  buildManifest_def saveManifest_def routingSelectNetwork_def jobRepository_create_def
  generatedId_def tryCreatePayment_def paymentRepository_create_def save_def

section \<open>The claims about \<open>createJob\<close>\<close>

text \<open>
  Claim C1, as amended. The chain id is validated before the balance is read, so a call
  with an unsupported chain id fails with InvalidChainId whatever the balance is. For
  every \<open>createJob\<close> call where the user's balance is strictly less than
  \<open>usdTotal\<close> (the fund amount plus the fee), the call fails and leaves the state as it
  was: no Job row and no Payment record is created, no file is uploaded. The error is
  the BadRequest \<open>ErrorJob.NotEnoughFunds\<close> when the requested chain id is absent, 0 or
  supported, and InvalidChainId otherwise.
\<close>

theorem createJob_insufficient_funds:
  assumes "getUserBalance e (payments s) uid
             < dto_fundAmount dto + JOB_LAUNCHER_FEE e / 100 * dto_fundAmount dto"
  shows "createJob e uid reqType dto s =
           (Inl (if (case dto_chainId dto of
                       None \<Rightarrow> True
                     | Some c \<Rightarrow> c = 0 \<or> c \<in> set (supportedChainIds e))
                 then BadRequestException ErrorJob_NotEnoughFunds
                 else InvalidChainId), s)"
proof (cases "(case dto_chainId dto of
           None \<Rightarrow> True
         | Some c \<Rightarrow> c = 0 \<or> c \<in> set (supportedChainIds e))")
  case True
  then show ?thesis
    using assms createJob_not_enough_funds
      [where dto=dto and e=e and s=s and uid=uid and reqType=reqType]
    by (simp add: lt_def add_def mul_def)
next
  case False
  then show ?thesis
    using createJob_invalid_chain
      [where dto=dto and e=e and s=s and uid=uid and reqType=reqType]
    by simp
qed

text \<open>The scenario of the spec: a balance of 100 and a request for 200.\<close>

theorem createJob_insufficient_funds_witness:
  "createJob scenario_env 1 FORTUNE (scenario_request 200 None) scenario_world =
     (Inl (BadRequestException ErrorJob_NotEnoughFunds), scenario_world)"
  using createJob_insufficient_funds
    [of scenario_env scenario_world 1 "scenario_request 200 None" FORTUNE]
  by (simp add: scenario_defs)

text \<open>
  The claim as stated fails for the same request on the unsupported chain 999: the
  balance is below the total, and the call fails with InvalidChainId.
\<close>

theorem createJob_insufficient_funds_counterexample:
  "getUserBalance scenario_env (payments scenario_world) 1
     < 200 + JOB_LAUNCHER_FEE scenario_env / 100 * 200 \<and>
   fst (createJob scenario_env 1 FORTUNE (scenario_request 200 (Some 999)) scenario_world)
     = Inl InvalidChainId \<and>
   fst (createJob scenario_env 1 FORTUNE (scenario_request 200 (Some 999)) scenario_world)
     \<noteq> Inl (BadRequestException ErrorJob_NotEnoughFunds)"
  by (simp add: scenario_defs model_defs)

text \<open>
  Claim C8. With the decimal helpers exact, \<open>createJob\<close> computes the fee as
  \<open>fundAmount * feePercentage / 100\<close> and the USD total as \<open>fundAmount + fee\<close>: the
  balance check fails exactly when the balance is below that total (for a request whose
  chain id passes), every Job row the call persists has \<open>fee\<close> and \<open>fundAmount\<close> equal
  to these USD amounts multiplied by the fetched rate, and the Payment it creates has
  the negated total multiplied by the rate as its amount. This holds for every fund
  amount and fee percentage, so for \<open>fundAmount > 0\<close> and \<open>feePercentage \<ge> 0\<close>.
\<close>

theorem createJob_amounts:
  fixes e uid reqType dto s
  defines "fund \<equiv> dto_fundAmount dto"
  defines "usdFee \<equiv> fund * JOB_LAUNCHER_FEE e / 100"
  defines "usdTotal \<equiv> fund + usdFee"
  defines "res \<equiv> createJob e uid reqType dto s"
  shows "((case dto_chainId dto of
             None \<Rightarrow> True
           | Some c \<Rightarrow> c = 0 \<or> c \<in> set (supportedChainIds e)) \<longrightarrow>
           (fst res = Inl (BadRequestException ErrorJob_NotEnoughFunds)
              \<longleftrightarrow> getUserBalance e (payments s) uid < usdTotal)) \<and>
         (jobs (snd res) = jobs s \<or>
           (\<exists>j. jobs (snd res) = jobs s @ [j] \<and>
                fee j = usdFee * getRate e \<and> fundAmount j = fund * getRate e)) \<and>
         (payments (snd res) = payments s \<or>
           (\<exists>p. payments (snd res) = payments s @ [p] \<and>
                payment_amount p = - (usdTotal * getRate e))) \<and>
         (\<forall>i. fst res = Inr i \<longrightarrow>
           (\<exists>j p. jobs (snd res) = jobs s @ [j] \<and> job_id j = i \<and> status j = PAID \<and>
                  fee j = usdFee * getRate e \<and> fundAmount j = fund * getRate e \<and>
                  payments (snd res) = payments s @ [p] \<and>
                  payment_amount p = - (usdTotal * getRate e)))"
proof -
  note defs = res_def usdTotal_def usdFee_def fund_def
  show ?thesis
  proof (cases rule: createJob_cases
      [where e=e and uid=uid and reqType=reqType and dto=dto and s=s])
    case invalid_chain
    then show ?thesis by (simp add: defs)
  next
    case not_enough_funds
    then show ?thesis by (simp add: defs lt_def add_def mul_def algebra_simps)
  next
    case no_manifest
    then show ?thesis by (simp add: defs lt_def add_def mul_def algebra_simps)
  next
    case (upload_failed m)
    then show ?thesis by (simp add: defs lt_def add_def mul_def algebra_simps)
  next
    case (not_created m url hash)
    then show ?thesis by (simp add: defs lt_def add_def mul_def algebra_simps)
  next
    case (payment_failed m url hash j t)
    then show ?thesis by (simp add: defs lt_def add_def mul_def algebra_simps)
  next
    case (paid m url hash j p)
    then show ?thesis by (simp add: defs lt_def add_def mul_def algebra_simps)
  qed
qed

text \<open>The scenario of the spec: a balance of 100, a request for 50, a fee of 10 percent,
  at the rate 2.\<close>

theorem createJob_amounts_witness:
  "fst (createJob scenario_env 1 FORTUNE (scenario_request 50 None) scenario_world) = Inr 1 \<and>
   map fee (jobs (snd (createJob scenario_env 1 FORTUNE (scenario_request 50 None) scenario_world)))
     = [50 * 10 / 100 * 2] \<and>
   map fundAmount (jobs (snd (createJob scenario_env 1 FORTUNE (scenario_request 50 None) scenario_world)))
     = [50 * 2] \<and>
   map status (jobs (snd (createJob scenario_env 1 FORTUNE (scenario_request 50 None) scenario_world)))
     = [PAID] \<and>
   map payment_amount
     (payments (snd (createJob scenario_env 1 FORTUNE (scenario_request 50 None) scenario_world)))
     = [- ((50 + 5) * 2)]"
  using createJob_amounts
    [where e=scenario_env and uid=1 and reqType=FORTUNE and dto="scenario_request 50 None"
       and s=scenario_world]
  by (simp add: scenario_defs model_defs)

text \<open>
  Claim C2. Every Job row \<open>createJob\<close> inserts is inserted with status \<open>PENDING\<close>. A
  save of the row with status \<open>PAID\<close> happens only in a call whose writes are, in this
  order: the manifest upload, the insertion of the row as \<open>PENDING\<close>, the creation of a
  \<open>WITHDRAWAL\<close> Payment for the same user with amount \<open>- tokenTotalAmount\<close>, and the
  save of that row as \<open>PAID\<close>. A row the call leaves in the table is \<open>PENDING\<close>, with no
  Payment created, or it is \<open>PAID\<close> by such a save.
\<close>

theorem createJob_pending_then_paid:
  fixes e uid reqType dto s
  defines "tokenTotalAmount \<equiv>
             dto_fundAmount dto * getRate e +
             JOB_LAUNCHER_FEE e / 100 * dto_fundAmount dto * getRate e"
  defines "res \<equiv> createJob e uid reqType dto s"
  shows "\<exists>new. effects (snd res) = effects s @ new \<and>
           (\<forall>j. JobInserted j \<in> set new \<longrightarrow> status j = PENDING) \<and>
           (\<forall>j. JobSaved j \<in> set new \<longrightarrow> status j = PAID \<longrightarrow>
              (\<exists>m j0 p. new = [ManifestUploaded m, JobInserted j0, PaymentCreated p, JobSaved j] \<and>
                 j = j0\<lparr>status := PAID\<rparr> \<and> userId j0 = uid \<and>
                 payment_userId p = uid \<and> payment_type p = WITHDRAWAL \<and>
                 payment_amount p = - tokenTotalAmount \<and>
                 payments (snd res) = payments s @ [p])) \<and>
           (jobs (snd res) = jobs s \<or>
             (\<exists>j. jobs (snd res) = jobs s @ [j] \<and> userId j = uid \<and>
                (status j = PENDING \<and> payments (snd res) = payments s \<and>
                   (\<exists>m. new = [ManifestUploaded m, JobInserted j]) \<or>
                 status j = PAID \<and> JobSaved j \<in> set new)))"
proof -
  note defs = res_def tokenTotalAmount_def
  show ?thesis
  proof (cases rule: createJob_cases
      [where e=e and uid=uid and reqType=reqType and dto=dto and s=s])
    case invalid_chain
    then show ?thesis by (simp add: defs)
  next
    case not_enough_funds
    then show ?thesis by (simp add: defs)
  next
    case no_manifest
    then show ?thesis by (simp add: defs)
  next
    case (upload_failed m)
    then show ?thesis by (simp add: defs)
  next
    case (not_created m url hash)
    then show ?thesis by (simp add: defs)
  next
    case (payment_failed m url hash j t)
    then show ?thesis by (simp add: defs)
  next
    case (paid m url hash j p)
    then show ?thesis by (simp add: defs add_def mul_def)
  qed
qed

text \<open>The writes of the same call, in order.\<close>

theorem createJob_pending_then_paid_witness:
  "effects (snd (createJob scenario_env 1 FORTUNE (scenario_request 50 None) scenario_world)) =
     [ManifestUploaded scenario_fortune_manifest,
      JobInserted
        \<lparr>job_id = 1, chainId = 80001, userId = 1, manifestUrl = ''http://bucket/manifest.json'',
         manifestHash = ''0xhash'', fee = 10, fundAmount = 100, status = PENDING,
         escrowAddress = None, waitUntil = 0\<rparr>,
      PaymentCreated
        \<lparr>payment_userId = 1, payment_source = BALANCE, payment_type = WITHDRAWAL,
         payment_amount = - 110, payment_currency = HMT, payment_rate = 1 / 2,
         payment_status = SUCCEEDED\<rparr>,
      JobSaved
        \<lparr>job_id = 1, chainId = 80001, userId = 1, manifestUrl = ''http://bucket/manifest.json'',
         manifestHash = ''0xhash'', fee = 10, fundAmount = 100, status = PAID,
         escrowAddress = None, waitUntil = 0\<rparr>]"
  using createJob_pending_then_paid
    [where e=scenario_env and uid=1 and reqType=FORTUNE and dto="scenario_request 50 None"
       and s=scenario_world]
  by (simp add: scenario_defs model_defs)

text \<open>
  Claim C3. When \<open>createJob\<close> has persisted the Job row and the creation of the
  Payment record fails with \<open>t\<close>, the call fails with the Conflict
  \<open>ErrorPayment.IncorrectAmount\<close> if \<open>t\<close> is a \<open>QueryFailedError\<close> whose message
  includes the lower-cased \<open>ErrorPostgres.NumericFieldOverflow\<close>, and with the Conflict
  \<open>ErrorPayment.NotSuccess\<close> for any other \<open>t\<close>. In both cases no Payment is created
  and the Job row stays in the table with status \<open>PENDING\<close>: nothing is written after
  its insertion.
\<close>

theorem createJob_payment_failure:
  fixes e uid reqType dto s
  defines "tokenFundAmount \<equiv> dto_fundAmount dto * getRate e"
  defines "tokenFee \<equiv> JOB_LAUNCHER_FEE e / 100 * dto_fundAmount dto * getRate e"
  defines "res \<equiv> createJob e uid reqType dto s"
  assumes "(case dto_chainId dto of
         None \<Rightarrow> True
       | Some c \<Rightarrow> c = 0 \<or> c \<in> set (supportedChainIds e))"
    and "\<not> getUserBalance e (payments s) uid
            < dto_fundAmount dto + JOB_LAUNCHER_FEE e / 100 * dto_fundAmount dto"
    and "buildManifest e reqType dto tokenFundAmount = Inr m"
    and "uploadFiles e m = Some (url, hash)"
    and "jobRepositoryCreates e"
    and "fst (tryCreatePayment e uid (tokenFundAmount + tokenFee) (getRate e) s) = Some t"
  shows "fst res =
           Inl (ConflictException
                 (if \<exists>msg. t = QueryFailedError msg \<and>
                            string_includes msg (toLowerCase (NumericFieldOverflow e))
                  then ErrorPayment_IncorrectAmount else ErrorPayment_NotSuccess)) \<and>
         payments (snd res) = payments s \<and>
         (\<exists>j. jobs (snd res) = jobs s @ [j] \<and> status j = PENDING \<and> userId j = uid \<and>
              effects (snd res) = effects s @ [ManifestUploaded m, JobInserted j])"
proof -
  have overflow: "isNumericFieldOverflow e t \<longleftrightarrow>
      (\<exists>msg. t = QueryFailedError msg \<and>
             string_includes msg (toLowerCase (NumericFieldOverflow e)))"
    by (cases t) simp_all
  show ?thesis
    using assms(4-)
      createJob_payment_failed
        [where e=e and uid=uid and reqType=reqType and dto=dto and s=s and m=m and url=url
           and hash=hash and t=t and w=s, OF _ _ _ _ _ refl]
    unfolding res_def tokenFundAmount_def tokenFee_def overflow [symmetric]
    by (simp add: add_def mul_def lt_def)
qed

text \<open>The same call against a ledger that reports a numeric field overflow.\<close>

theorem createJob_payment_failure_witness:
  "fst (createJob (scenario_env\<lparr>paymentRepositoryCreate :=
                      \<lambda>p. Some (QueryFailedError ''error: numeric field overflow'')\<rparr>)
         1 FORTUNE (scenario_request 50 None) scenario_world)
     = Inl (ConflictException ErrorPayment_IncorrectAmount) \<and>
   map status (jobs (snd (createJob (scenario_env\<lparr>paymentRepositoryCreate :=
                      \<lambda>p. Some (QueryFailedError ''error: numeric field overflow'')\<rparr>)
         1 FORTUNE (scenario_request 50 None) scenario_world))) = [PENDING] \<and>
   payments (snd (createJob (scenario_env\<lparr>paymentRepositoryCreate :=
                      \<lambda>p. Some (QueryFailedError ''error: numeric field overflow'')\<rparr>)
         1 FORTUNE (scenario_request 50 None) scenario_world)) = []"
  using createJob_payment_failure
    [where e="scenario_env\<lparr>paymentRepositoryCreate :=
                 \<lambda>p. Some (QueryFailedError ''error: numeric field overflow'')\<rparr>"
       and uid=1 and reqType=FORTUNE and dto="scenario_request 50 None" and s=scenario_world
       and t="QueryFailedError ''error: numeric field overflow''"
       and url="''http://bucket/manifest.json''" and hash="''0xhash''"
       and m=scenario_fortune_manifest]
  by (simp add: scenario_defs model_defs toLowerCase_def)

lemma createJob_selector_only_when_absent:
  assumes "routingCalls (snd (createJob e uid reqType dto s)) \<noteq> routingCalls s"
  shows "dto_chainId dto = None"
  using assms
  by (cases rule: createJob_cases
        [where e=e and uid=uid and reqType=reqType and dto=dto and s=s])
     (auto split: if_splits)

lemma createJob_zero_outcome:
  fixes e uid reqType dto s
  defines "res \<equiv> createJob e uid reqType dto s"
  assumes "dto_chainId dto = Some 0"
  shows "fst res \<noteq> Inl InvalidChainId \<and>
         routingCalls (snd res) = routingCalls s \<and>
         (jobs (snd res) = jobs s \<or> (\<exists>j. jobs (snd res) = jobs s @ [j] \<and> chainId j = 0)) \<and>
         (\<not> getUserBalance e (payments s) uid
              < dto_fundAmount dto + JOB_LAUNCHER_FEE e / 100 * dto_fundAmount dto \<and>
          (\<exists>m. buildManifest e reqType dto (dto_fundAmount dto * getRate e) = Inr m \<and>
               uploadFiles e m \<noteq> None) \<and>
          jobRepositoryCreates e
          \<longrightarrow> (\<exists>j. jobs (snd res) = jobs s @ [j] \<and> chainId j = 0 \<and>
                   JobInserted (j\<lparr>status := PENDING\<rparr>) \<in> set (effects (snd res))))"
proof (cases rule: createJob_cases
    [where e=e and uid=uid and reqType=reqType and dto=dto and s=s])
  case invalid_chain
  then show ?thesis using assms(2) by simp
next
  case not_enough_funds
  then show ?thesis using assms(2) by (simp add: res_def lt_def add_def mul_def)
next
  case no_manifest
  then show ?thesis using assms(2) by (simp add: res_def lt_def add_def mul_def)
next
  case (upload_failed m)
  then show ?thesis using assms(2) by (simp add: res_def lt_def add_def mul_def)
next
  case (not_created m url hash)
  then show ?thesis using assms(2) by (simp add: res_def lt_def add_def mul_def)
next
  case (payment_failed m url hash j t)
  then show ?thesis using assms(2) by (simp add: res_def lt_def add_def mul_def)
next
  case (paid m url hash j p)
  then show ?thesis using assms(2) by (simp add: res_def lt_def add_def mul_def)
qed

text \<open>
  Claim C9. For a request whose \<open>chainId\<close> is 0, \<open>createJob\<close> never fails with
  InvalidChainId, whether 0 is a supported chain id or not (the truthiness guard skips
  the validation), and it never asks the routing selector (\<open>??\<close> takes 0 as present):
  a Job row the call persists has \<open>chainId\<close> 0, and one is persisted whenever the
  balance suffices, the manifest is uploaded and the repository returns the entity.
  Whatever the request, the selector is asked only when \<open>chainId\<close> is absent.
\<close>

theorem createJob_chainId_zero:
  fixes e uid reqType dto s
  defines "res \<equiv> createJob e uid reqType dto s"
  assumes "dto_chainId dto = Some 0"
  shows "fst res \<noteq> Inl InvalidChainId \<and>
         routingCalls (snd res) = routingCalls s \<and>
         (jobs (snd res) = jobs s \<or> (\<exists>j. jobs (snd res) = jobs s @ [j] \<and> chainId j = 0)) \<and>
         (\<not> getUserBalance e (payments s) uid
              < dto_fundAmount dto + JOB_LAUNCHER_FEE e / 100 * dto_fundAmount dto \<and>
          (\<exists>m. buildManifest e reqType dto (dto_fundAmount dto * getRate e) = Inr m \<and>
               uploadFiles e m \<noteq> None) \<and>
          jobRepositoryCreates e
          \<longrightarrow> (\<exists>j. jobs (snd res) = jobs s @ [j] \<and> chainId j = 0 \<and>
                   JobInserted (j\<lparr>status := PENDING\<rparr>) \<in> set (effects (snd res)))) \<and>
         (\<forall>request. routingCalls (snd (createJob e uid reqType request s)) \<noteq> routingCalls s
             \<longrightarrow> dto_chainId request = None)"
proof -
  have "\<forall>request. routingCalls (snd (createJob e uid reqType request s)) \<noteq> routingCalls s
          \<longrightarrow> dto_chainId request = None"
    using createJob_selector_only_when_absent by blast
  then show ?thesis
    using createJob_zero_outcome [OF assms(2), of e uid reqType s]
    unfolding res_def by blast
qed

text \<open>Chain 0 is not supported in the scenario, and the job is persisted on it.\<close>

theorem createJob_chainId_zero_witness:
  "0 \<notin> set (supportedChainIds scenario_env) \<and>
   fst (createJob scenario_env 1 FORTUNE (scenario_request 50 (Some 0)) scenario_world) = Inr 1 \<and>
   map chainId (jobs (snd (createJob scenario_env 1 FORTUNE (scenario_request 50 (Some 0))
                              scenario_world))) = [0] \<and>
   routingCalls (snd (createJob scenario_env 1 FORTUNE (scenario_request 50 (Some 0))
                        scenario_world)) = 0"
  using createJob_chainId_zero
    [where e=scenario_env and uid=1 and reqType=FORTUNE and dto="scenario_request 50 (Some 0)"
       and s=scenario_world]
  by (simp add: scenario_defs model_defs)

section \<open>The claims about \<open>launchJob\<close>\<close>

lemmas launch_defs =
  launchJob_def Let_def getManifest_def validateManifest_def sendWebhook_def save_def
  annotationTypeTruthy_def isFortuneRequestType_def


lemma BigNumber_from_int:
  assumes "v = of_int n" and "\<bar>v\<bar> < 9007199254740991"
  shows "BigNumber_from v = Inr n"
  using assms by (auto simp: BigNumber_from_def MAX_SAFE_def)






text \<open>
  Claim C5. When the re-fetched manifest has validation errors against the class its
  request type selects (\<open>FortuneManifestDto\<close> when \<open>requestType\<close> is \<open>FORTUNE\<close>,
  \<open>CvatManifestDto\<close> otherwise), \<open>launchJob\<close> fails with
  \<open>ErrorJob.ManifestValidationFailed\<close>. The only write of the call is the escrow that
  was created before the manifest was fetched: no tokens are transferred and the job
  table is unchanged, so the row keeps its status and its escrow address. The
  hypotheses are the steps before the re-fetch: the escrow configuration is built (the
  two oracle fees are integers \<open>BigNumber.from\<close> takes), the chain is in \<open>NETWORKS\<close>, the
  escrow client returns a non-empty address and the manifest is found.
\<close>

theorem launchJob_manifest_invalid:
  fixes e jobEntity s address hmtAddress m recordingFee reputationFee
  defines "escrowConfig \<equiv>
             \<lparr>recordingOracle = RECORDING_ORACLE_ADDRESS e,
              reputationOracle = REPUTATION_ORACLE_ADDRESS e,
              recordingOracleFee = recordingFee,
              reputationOracleFee = reputationFee,
              escrowManifestUrl = manifestUrl jobEntity,
              escrowManifestHash = manifestHash jobEntity\<rparr>"
  assumes "RECORDING_ORACLE_FEE e = of_int recordingFee"
    and "\<bar>RECORDING_ORACLE_FEE e\<bar> < 9007199254740991"
    and "REPUTATION_ORACLE_FEE e = of_int reputationFee"
    and "\<bar>REPUTATION_ORACLE_FEE e\<bar> < 9007199254740991"
    and "NETWORKS e (chainId jobEntity) = Some hmtAddress"
    and "createAndSetupEscrow e (chainId jobEntity) hmtAddress escrowConfig = address"
    and "address \<noteq> []"
    and "downloadManifest e (manifestUrl jobEntity) = Some m"
    and "validateManifestDto e (if isFortuneRequestType m then FortuneManifestDto_class
                                  else CvatManifestDto_class) m \<noteq> []"
  shows "launchJob e jobEntity s =
           (Inl (NotFoundException ErrorJob_ManifestValidationFailed),
            s\<lparr>effects := effects s @ [EscrowCreated hmtAddress escrowConfig address]\<rparr>)"
proof -
  have "BigNumber_from (RECORDING_ORACLE_FEE e) = Inr recordingFee"
    using assms(2,3) by (rule BigNumber_from_int)
  moreover have "BigNumber_from (REPUTATION_ORACLE_FEE e) = Inr reputationFee"
    using assms(4,5) by (rule BigNumber_from_int)
  ultimately show ?thesis
    using assms(6-)
    unfolding escrowConfig_def
    by (simp add: launchJob_def Let_def getManifest_def validateManifest_def)
qed

text \<open>An annotation manifest without labels.\<close>

theorem launchJob_manifest_invalid_witness:
  "launchJob scenario_env (scenario_job ''http://bucket/nolabels.json'' PAID)
     (scenario_world\<lparr>jobs := [scenario_job ''http://bucket/nolabels.json'' PAID]\<rparr>) =
     (Inl (NotFoundException ErrorJob_ManifestValidationFailed),
      scenario_world
        \<lparr>jobs := [scenario_job ''http://bucket/nolabels.json'' PAID],
         effects :=
           [EscrowCreated ''0xHMToken''
              \<lparr>recordingOracle = ''0xRecordingOracle'', reputationOracle = ''0xReputationOracle'',
               recordingOracleFee = 1, reputationOracleFee = 1,
               escrowManifestUrl = ''http://bucket/nolabels.json'',
               escrowManifestHash = ''0xhash''\<rparr>
              ''0xEscrow'']\<rparr>)"
  using launchJob_manifest_invalid
    [where e=scenario_env
       and jobEntity="scenario_job ''http://bucket/nolabels.json'' PAID"
       and s="scenario_world\<lparr>jobs := [scenario_job ''http://bucket/nolabels.json'' PAID]\<rparr>"
       and hmtAddress="''0xHMToken''" and address="''0xEscrow''"
       and recordingFee=1 and reputationFee=1
       and m="scenario_cvat_manifest None"]
  by (simp add: scenario_defs launch_defs BigNumber_from_def MAX_SAFE_def)

section \<open>The claims about \<open>getResult\<close>\<close>

lemma findOne_None_iff:
  "jobRepository_findOne jid uid st s = None \<longleftrightarrow>
     \<not> (\<exists>j \<in> set (jobs s). job_id j = jid \<and> userId j = uid \<and> status j = st)"
  by (auto simp: jobRepository_findOne_def find_None_iff)

lemma getResult_NotFound_iff:
  "getResult e uid jid s = Inl (NotFoundException ErrorJob_NotFound) \<longleftrightarrow>
     \<not> (\<exists>j \<in> set (jobs s). job_id j = jid \<and> userId j = uid \<and> status j = LAUNCHED)"
proof (cases "jobRepository_findOne jid uid LAUNCHED s")
  case None
  then show ?thesis
    using findOne_None_iff [of jid uid LAUNCHED s] by (simp add: getResult_def)
next
  case (Some j)
  then have "\<exists>j \<in> set (jobs s). job_id j = jid \<and> userId j = uid \<and> status j = LAUNCHED"
    using findOne_None_iff [of jid uid LAUNCHED s] by auto
  with Some show ?thesis
    by (simp add: getResult_def Let_def)
qed

text \<open>
  Claim C6. \<open>getResult\<close> fails with the NotFound \<open>ErrorJob.NotFound\<close> exactly when the
  table has no job with that id, that owner and status \<open>LAUNCHED\<close>. So, in a table with
  one row per id, it fails with it for the id of every job that is not \<open>LAUNCHED\<close> and
  of every job another user owns.
\<close>

theorem getResult_requires_launched_owned:
  "(getResult e uid jid s = Inl (NotFoundException ErrorJob_NotFound) \<longleftrightarrow>
      \<not> (\<exists>j \<in> set (jobs s). job_id j = jid \<and> userId j = uid \<and> status j = LAUNCHED)) \<and>
   (\<forall>j \<in> set (jobs s).
      distinct (map job_id (jobs s)) \<longrightarrow> job_id j = jid \<longrightarrow>
      status j \<noteq> LAUNCHED \<or> userId j \<noteq> uid \<longrightarrow>
      getResult e uid jid s = Inl (NotFoundException ErrorJob_NotFound))"
proof -
  have "getResult e uid jid s = Inl (NotFoundException ErrorJob_NotFound)"
    if "j \<in> set (jobs s)" and d: "distinct (map job_id (jobs s))" and "job_id j = jid"
      and "status j \<noteq> LAUNCHED \<or> userId j \<noteq> uid" for j
  proof -
    have "r = j" if "r \<in> set (jobs s)" and "job_id r = jid" for r
      using that \<open>j \<in> set (jobs s)\<close> \<open>job_id j = jid\<close> d
      by (metis distinct_map inj_onD)
    with that(4) show ?thesis
      unfolding getResult_NotFound_iff by blast
  qed
  then show ?thesis
    using getResult_NotFound_iff [of e uid jid s] by blast
qed

text \<open>A job that is only paid, a launched job of another user, and the owner's launched job.\<close>

theorem getResult_requires_launched_owned_witness:
  "getResult scenario_env 1 1
     (scenario_world\<lparr>jobs := [scenario_job ''http://bucket/manifest.json'' PAID]\<rparr>)
     = Inl (NotFoundException ErrorJob_NotFound) \<and>
   getResult scenario_env 2 1
     (scenario_world\<lparr>jobs := [scenario_job ''http://bucket/manifest.json'' LAUNCHED]\<rparr>)
     = Inl (NotFoundException ErrorJob_NotFound) \<and>
   getResult scenario_env 1 1
     (scenario_world\<lparr>jobs := [scenario_job ''http://bucket/manifest.json'' LAUNCHED]\<rparr>)
     = Inr (JArr [JStr ''a fortune''])"
  using
    getResult_requires_launched_owned
      [of scenario_env 1 1
          "scenario_world\<lparr>jobs := [scenario_job ''http://bucket/manifest.json'' PAID]\<rparr>"]
    getResult_requires_launched_owned
      [of scenario_env 2 1
          "scenario_world\<lparr>jobs := [scenario_job ''http://bucket/manifest.json'' LAUNCHED]\<rparr>"]
  by (simp add: scenario_defs getResult_def jobRepository_findOne_def)

lemma find_map: "find P (map f xs) = map_option f (find (P \<circ> f) xs)"
  by (induction xs) auto

lemma getResult_reads_chain_and_escrow:
  assumes "\<And>j. job_id (f j) = job_id j \<and> userId (f j) = userId j \<and> status (f j) = status j \<and>
               chainId (f j) = chainId j \<and> escrowAddress (f j) = escrowAddress j"
  shows "getResult e uid jid (s\<lparr>jobs := map f (jobs s)\<rparr>) = getResult e uid jid s"
proof -
  have "(\<lambda>j. job_id j = jid \<and> userId j = uid \<and> status j = LAUNCHED) \<circ> f =
        (\<lambda>j. job_id j = jid \<and> userId j = uid \<and> status j = LAUNCHED)"
    using assms by (auto simp: fun_eq_iff)
  then show ?thesis
    using assms
    by (cases "find (\<lambda>j. job_id j = jid \<and> userId j = uid \<and> status j = LAUNCHED) (jobs s)")
       (simp_all add: getResult_def jobRepository_findOne_def find_map)
qed

text \<open>
  Claim C7, as amended. A falsy document (\<open>null\<close>, \<open>false\<close>, 0 or the empty string) is
  refused before any validation, with \<open>ErrorJob.ResultNotFound\<close>. Once the result
  document of the job is downloaded (the job is found and the results URL is not
  empty), \<open>getResult\<close> fails with \<open>ErrorJob.ResultValidationFailed\<close> if and only if the
  document is truthy and has validation errors against both \<open>FortuneFinalResultDto\<close>
  and \<open>CvatFinalResultDto\<close>; a truthy document valid against either one is returned as
  it is; a falsy document gives \<open>ErrorJob.ResultNotFound\<close>, whatever the validators
  say. The job entity carries no request type, and \<open>getResult\<close> is the same whatever
  the other fields of the job rows are (the manifest URL and hash among them, which
  lead to the request type): the shape of the result is never compared with the
  request type of the job.
\<close>

theorem getResult_validation:
  assumes "jobRepository_findOne jid uid LAUNCHED s = Some j"
    and "getResultsUrl e (chainId j) (escrowAddress j) = url"
    and "url \<noteq> []"
    and "downloadResult e url = r"
  shows "(getResult e uid jid s = Inl (NotFoundException ErrorJob_ResultValidationFailed) \<longleftrightarrow>
           truthy r \<and>
           validateResultDto e FortuneFinalResultDto_class r \<noteq> [] \<and>
           validateResultDto e CvatFinalResultDto_class r \<noteq> []) \<and>
         (truthy r \<and>
          (validateResultDto e FortuneFinalResultDto_class r = [] \<or>
           validateResultDto e CvatFinalResultDto_class r = []) \<longrightarrow>
           getResult e uid jid s = Inr r) \<and>
         (\<not> truthy r \<longrightarrow>
           getResult e uid jid s = Inl (NotFoundException ErrorJob_ResultNotFound)) \<and>
         (\<forall>f. (\<forall>j. job_id (f j) = job_id j \<and> userId (f j) = userId j \<and>
                    status (f j) = status j \<and> chainId (f j) = chainId j \<and>
                    escrowAddress (f j) = escrowAddress j)
              \<longrightarrow> getResult e uid jid (s\<lparr>jobs := map f (jobs s)\<rparr>) = getResult e uid jid s)"
proof -
  have "\<forall>f. (\<forall>j. job_id (f j) = job_id j \<and> userId (f j) = userId j \<and>
                 status (f j) = status j \<and> chainId (f j) = chainId j \<and>
                 escrowAddress (f j) = escrowAddress j)
           \<longrightarrow> getResult e uid jid (s\<lparr>jobs := map f (jobs s)\<rparr>) = getResult e uid jid s"
    using getResult_reads_chain_and_escrow by blast
  moreover have
    "(getResult e uid jid s = Inl (NotFoundException ErrorJob_ResultValidationFailed) \<longleftrightarrow>
        truthy r \<and>
        validateResultDto e FortuneFinalResultDto_class r \<noteq> [] \<and>
        validateResultDto e CvatFinalResultDto_class r \<noteq> []) \<and>
     (truthy r \<and>
      (validateResultDto e FortuneFinalResultDto_class r = [] \<or>
       validateResultDto e CvatFinalResultDto_class r = []) \<longrightarrow>
        getResult e uid jid s = Inr r) \<and>
     (\<not> truthy r \<longrightarrow>
        getResult e uid jid s = Inl (NotFoundException ErrorJob_ResultNotFound))"
    using assms by (auto simp: getResult_def Let_def)
  ultimately show ?thesis
    by blast
qed

text \<open>A fortune-shaped result for a job with an annotation manifest, an annotation-shaped
  result for a job with a fortune manifest, a result of neither shape, and the
  document 0.\<close>

theorem getResult_validation_witness:
  "getResult scenario_env 1 1
     (scenario_world\<lparr>jobs := [scenario_job ''http://bucket/cvat.json'' LAUNCHED]\<rparr>)
     = Inr (JArr [JStr ''a fortune'']) \<and>
   getResult (scenario_env\<lparr>downloadResult := \<lambda>u. JObj [(''annotations'', JArr [])]\<rparr>) 1 1
     (scenario_world\<lparr>jobs := [scenario_job ''http://bucket/manifest.json'' LAUNCHED]\<rparr>)
     = Inr (JObj [(''annotations'', JArr [])]) \<and>
   getResult (scenario_env\<lparr>downloadResult := \<lambda>u. JStr ''not a result''\<rparr>) 1 1
     (scenario_world\<lparr>jobs := [scenario_job ''http://bucket/cvat.json'' LAUNCHED]\<rparr>)
     = Inl (NotFoundException ErrorJob_ResultValidationFailed) \<and>
   getResult (scenario_env\<lparr>downloadResult := \<lambda>u. JNum 0\<rparr>) 1 1
     (scenario_world\<lparr>jobs := [scenario_job ''http://bucket/cvat.json'' LAUNCHED]\<rparr>)
     = Inl (NotFoundException ErrorJob_ResultNotFound)"
  using
    getResult_validation
      [where jid=1 and uid=1 and e=scenario_env
         and s="scenario_world\<lparr>jobs := [scenario_job ''http://bucket/cvat.json'' LAUNCHED]\<rparr>"
         and j="scenario_job ''http://bucket/cvat.json'' LAUNCHED"
         and url="''http://bucket/result.json''" and r="JArr [JStr ''a fortune'']"]
    getResult_validation
      [where jid=1 and uid=1
         and e="scenario_env\<lparr>downloadResult := \<lambda>u. JStr ''not a result''\<rparr>"
         and s="scenario_world\<lparr>jobs := [scenario_job ''http://bucket/cvat.json'' LAUNCHED]\<rparr>"
         and j="scenario_job ''http://bucket/cvat.json'' LAUNCHED"
         and url="''http://bucket/result.json''" and r="JStr ''not a result''"]
    getResult_validation
      [where jid=1 and uid=1
         and e="scenario_env\<lparr>downloadResult := \<lambda>u. JNum 0\<rparr>"
         and s="scenario_world\<lparr>jobs := [scenario_job ''http://bucket/cvat.json'' LAUNCHED]\<rparr>"
         and j="scenario_job ''http://bucket/cvat.json'' LAUNCHED"
         and url="''http://bucket/result.json''" and r="JNum 0"]
  by (simp add: scenario_defs getResult_def jobRepository_findOne_def)

text \<open>
  The claim as stated fails for the downloaded document 0: it has validation errors
  against both classes, and the call fails with \<open>ErrorJob.ResultNotFound\<close>, not with
  \<open>ErrorJob.ResultValidationFailed\<close>.
\<close>

theorem getResult_validation_counterexample:
  "downloadResult (scenario_env\<lparr>downloadResult := \<lambda>u. JNum 0\<rparr>) ''http://bucket/result.json''
     = JNum 0 \<and>
   validateResultDto (scenario_env\<lparr>downloadResult := \<lambda>u. JNum 0\<rparr>)
     FortuneFinalResultDto_class (JNum 0) \<noteq> [] \<and>
   validateResultDto (scenario_env\<lparr>downloadResult := \<lambda>u. JNum 0\<rparr>)
     CvatFinalResultDto_class (JNum 0) \<noteq> [] \<and>
   getResult (scenario_env\<lparr>downloadResult := \<lambda>u. JNum 0\<rparr>) 1 1
     (scenario_world\<lparr>jobs := [scenario_job ''http://bucket/cvat.json'' LAUNCHED]\<rparr>)
     = Inl (NotFoundException ErrorJob_ResultNotFound) \<and>
   getResult (scenario_env\<lparr>downloadResult := \<lambda>u. JNum 0\<rparr>) 1 1
     (scenario_world\<lparr>jobs := [scenario_job ''http://bucket/cvat.json'' LAUNCHED]\<rparr>)
     \<noteq> Inl (NotFoundException ErrorJob_ResultValidationFailed)"
  by (simp add: scenario_defs getResult_def jobRepository_findOne_def)

section \<open>The claim about \<open>filterAddressesToReward\<close>\<close>

text \<open>
  For fortunes that are not names of properties of \<open>Object.prototype\<close>, the function
  computes what the claim says.
\<close>

lemma forEachEntry_spec:
  assumes "\<forall>x \<in> set xs. fortune x \<notin> set objectPrototypeProperties"
    and "\<forall>k. k \<notin> set objectPrototypeProperties \<longrightarrow> (readProperty tmp k \<longleftrightarrow> k \<in> seen)"
  shows "\<exists>tmp'. forEachEntry xs (filtered, reps, tmp) =
           (filtered @ retained_spec seen xs, reps @ reputations_spec seen xs, tmp')"
  using assms
proof (induction xs arbitrary: filtered reps tmp seen)
  case Nil
  then show ?case by simp
next
  case (Cons x xs)
  have rest: "\<forall>x \<in> set xs. fortune x \<notin> set objectPrototypeProperties"
    using Cons.prems(1) by simp
  have ordinary: "fortune x \<notin> set objectPrototypeProperties"
    using Cons.prems(1) by simp
  show ?case
  proof (cases "readProperty tmp (fortune x)")
    case True
    with Cons.prems(2) ordinary have seen: "fortune x \<in> seen"
      by simp
    from Cons.IH [OF rest Cons.prems(2)]
    obtain tmp' where
      "forEachEntry xs
         (filtered, reps @ [\<lparr>workerAddress = worker x, reputation = - 1\<rparr>], tmp) =
         (filtered @ retained_spec seen xs,
          (reps @ [\<lparr>workerAddress = worker x, reputation = - 1\<rparr>]) @ reputations_spec seen xs,
          tmp')"
      by blast
    with True seen show ?thesis
      by (simp add: insert_absorb)
  next
    case False
    with Cons.prems(2) ordinary have unseen: "fortune x \<notin> seen"
      by simp
    have inv: "\<forall>k. k \<notin> set objectPrototypeProperties \<longrightarrow>
                 (readProperty (tmp(fortune x \<mapsto> True)) k \<longleftrightarrow> k \<in> insert (fortune x) seen)"
      using Cons.prems(2) by (simp add: readProperty_def)
    from Cons.IH [OF rest inv]
    obtain tmp' where
      "forEachEntry xs
         (filtered @ [x], reps @ [\<lparr>workerAddress = worker x, reputation = 1\<rparr>],
          tmp(fortune x \<mapsto> True)) =
         ((filtered @ [x]) @ retained_spec (insert (fortune x) seen) xs,
          (reps @ [\<lparr>workerAddress = worker x, reputation = 1\<rparr>]) @
            reputations_spec (insert (fortune x) seen) xs,
          tmp')"
      by blast
    with False unseen show ?thesis
      by simp
  qed
qed

lemma filterAddressesToReward_ordinary_fortunes:
  assumes "\<forall>x \<in> set xs. fortune x \<notin> set objectPrototypeProperties"
  shows "filterAddressesToReward toChecksumAddress xs =
           \<lparr>workerAddresses = map toChecksumAddress (map worker (retained_spec {} xs)),
            reputationValues = reputations_spec {} xs\<rparr>"
proof -
  have "\<forall>k. k \<notin> set objectPrototypeProperties \<longrightarrow> (readProperty Map.empty k \<longleftrightarrow> k \<in> {})"
    by (simp add: readProperty_def)
  from forEachEntry_spec [OF assms this, of "[]" "[]"]
  show ?thesis by (auto simp: filterAddressesToReward_def)
qed

text \<open>
  Claim C10. The claim fails where a fortune is the name of a property of
  \<open>Object.prototype\<close>: the first (and only) entry with the fortune \<open>constructor\<close> gets the
  reputation -1 and its worker is not among the worker addresses, because the read
  \<open>tmpHashMap[fortune]\<close> on the fresh object finds the inherited property. The entries
  with an ordinary fortune are treated as the claim says. The claim asks for the
  reputations +1, +1, -1 and for the first two workers.
\<close>

theorem filterAddressesToReward_prototype_property:
  "filterAddressesToReward toChecksumAddress scenario_entries =
     \<lparr>workerAddresses = [toChecksumAddress scenario_worker2],
      reputationValues =
        [\<lparr>workerAddress = scenario_worker1, reputation = - 1\<rparr>,
         \<lparr>workerAddress = scenario_worker2, reputation = 1\<rparr>,
         \<lparr>workerAddress = scenario_worker3, reputation = - 1\<rparr>]\<rparr> \<and>
   reputations_spec {} scenario_entries =
     [\<lparr>workerAddress = scenario_worker1, reputation = 1\<rparr>,
      \<lparr>workerAddress = scenario_worker2, reputation = 1\<rparr>,
      \<lparr>workerAddress = scenario_worker3, reputation = - 1\<rparr>] \<and>
   map worker (retained_spec {} scenario_entries) = [scenario_worker1, scenario_worker2]"
  by (simp add: filterAddressesToReward_def readProperty_def objectPrototypeProperties_def
      scenario_entries_def)

end
